theory Spec2Isabelle
  imports Complex_Main "HOL-Library.AList"
begin

section \<open>The filter reactor editor of ChemSCAD (module\_filter\_reactor.py)\<close>

text \<open>
  The class \<open>ChemModule\<close> is a dialog that edits one filter reactor. Its state is a record
  \<open>editor\<close> holding the attributes the methods read and write (the widgets by the value
  they show, the three I/O dictionaries, the table of I/O rows, the parameter dictionary,
  the CAD object being edited, the parent window). Each function of the class is a function from
  editor to editor; one that can be left by an exception also returns that exception.

  Python dictionaries keep insertion order and the build loops follow it, so a dictionary
  is an association list: \<open>d[k] = v\<close> is \<open>AList.update\<close> (in place for a known key, at the
  end for a new one) and \<open>del d[k]\<close> raises \<open>KeyError\<close> for an unknown key.

  The CAD class \<open>FilterReactorCAD\<close> (imported as \<open>f_rea\<close>) and the parent window are not
  part of this file of the repository. The record \<open>collab\<close> holds what the editor calls on
  them; the theorems hold for any value of it, but for the one on the update with a
  threaded top, which is about the CAD class as the specification describes it, and for
  the examples, which are evaluated on one such class. A call on a CAD object
  changes the object and may raise, so it is a function from the object to the object
  after the call and the exception raised, if any. Logging is left out.
\<close>

subsection \<open>Exceptions\<close>

datatype exn =
    IncompatibilityError string
  | ConstraintError string
  | KeyError string
  | AttributeError string
  | OtherException string

text \<open>
  An exception carries its message, a \<open>KeyError\<close> the key: \<open>str\<close> of it is the key
  in quotes. \<open>noneAttributeError\<close> is what an attribute access on \<open>None\<close> raises.
\<close>

definition quote :: "string \<Rightarrow> string" where
  "quote s = [CHR 0x27] @ s @ [CHR 0x27]"

fun str :: "exn \<Rightarrow> string" where
  "str (IncompatibilityError m) = m"
| "str (ConstraintError m) = m"
| "str (KeyError k) = quote k"
| "str (AttributeError m) = m"
| "str (OtherException m) = m"

definition noneAttributeError :: "string \<Rightarrow> exn" where
  "noneAttributeError attr =
     AttributeError (quote ''NoneType'' @ '' object has no attribute '' @ quote attr)"

fun isIncompatibilityError :: "exn \<Rightarrow> bool" where
  "isIncompatibilityError (IncompatibilityError m) = True"
| "isIncompatibilityError e = False"

fun isConstraintError :: "exn \<Rightarrow> bool" where
  "isConstraintError (ConstraintError m) = True"
| "isConstraintError e = False"

subsection \<open>The CAD object and the collaborators\<close>

text \<open>
  The attributes of a CAD object that the editor reads (\<open>restoreParams\<close>, \<open>restoreIO\<close>),
  assigns (\<open>_updateModule\<close>) or deletes from (\<open>deleteIO\<close>).
\<close>

record cad_io =
  cio_height_per :: real
  cio_angle :: real
  cio_diameter :: real
  cio_external :: bool
  cio_connected :: bool

record cad_top =
  ctop_diameter :: real
  ctop_length :: real
  ctop_walls :: real
  ctop_type_io :: string

record cad =
  volume :: real
  type_top :: string
  type_bottom :: string
  h_filter :: real
  d_filter :: real
  d_can :: real
  r :: real
  r_constrained :: bool
  align_top_strategy :: string
  align_filter_strategy :: string
  inputs :: "(string \<times> cad_io) list"
  outputs :: "(string \<times> cad_io) list"
  top_inlets :: "(string \<times> cad_top) list"

type_synonym cad_call = "cad \<Rightarrow> cad \<times> exn option"

text \<open>
  \<open>construct\<close> is the call \<open>f_rea(volume, type_top, type_bottom, d_filter, h_filter, d_can=,
  align_top_strategy=, align_filter_strategy=)\<close>; \<open>set_x v\<close> is the assignment
  \<open>cad_obj.x = v\<close>; \<open>parent_refresh\<close> is \<open>self.parent.refresh()\<close>, which the editor expects
  to raise at times.
\<close>

record collab =
  THREADED_TOPS :: "string list"
  BOTTOMS_PIPE :: "string list"
  construct :: "real \<Rightarrow> string \<Rightarrow> string \<Rightarrow> real \<Rightarrow> real \<Rightarrow> real \<Rightarrow> string \<Rightarrow> string \<Rightarrow> exn + cad"
  set_r :: "real \<Rightarrow> cad_call"
  set_r_constrained :: "bool \<Rightarrow> cad_call"
  set_volume :: "real \<Rightarrow> cad_call"
  set_type_top :: "string \<Rightarrow> cad_call"
  set_type_bottom :: "string \<Rightarrow> cad_call"
  set_d_can :: "real \<Rightarrow> cad_call"
  set_h_filter :: "real \<Rightarrow> cad_call"
  set_d_filter :: "real \<Rightarrow> cad_call"
  set_align_top_strategy :: "string \<Rightarrow> cad_call"
  set_align_filter_strategy :: "string \<Rightarrow> cad_call"
  addInputPercentage :: "string \<Rightarrow> real \<Rightarrow> real \<Rightarrow> real \<Rightarrow> bool \<Rightarrow> cad_call"
  addOutputPercentage :: "string \<Rightarrow> real \<Rightarrow> real \<Rightarrow> real \<Rightarrow> bool \<Rightarrow> cad_call"
  addCustomTopInlet :: "string \<Rightarrow> real \<Rightarrow> real \<Rightarrow> real \<Rightarrow> string \<Rightarrow> cad_call"
  autoPlaceTopInlets :: cad_call
  parent_refresh :: "cad \<Rightarrow> exn option"

text \<open>A sequence of calls on one object stops at the first call that raises.\<close>

fun run_steps :: "cad_call list \<Rightarrow> cad_call" where
  "run_steps [] c = (c, None)"
| "run_steps (m # ms) c =
     (case m c of
        (c', None) \<Rightarrow> run_steps ms c'
      | (c', Some e) \<Rightarrow> (c', Some e))"

subsection \<open>The editor\<close>

text \<open>
  A side I/O and a top inlet as the dialogs hand them over, once \<open>params["name"]\<close> is
  taken out: the values of the I/O dictionaries.
\<close>

record side_io =
  io_type_io :: string
  io_height_per :: real
  io_angle :: real
  io_diameter :: real
  io_external :: bool

record top_io =
  top_type_io :: string
  top_diameter :: real
  top_length :: real
  top_walls :: real

text \<open>A row of \<open>table_io\<close>: its three items, and whether they can be selected.\<close>

record row =
  row_name :: string
  row_type :: string
  row_connected :: string
  row_selectable :: bool

text \<open>The keys of \<open>self.params\<close> that \<open>readForm\<close> writes.\<close>

record params =
  p_volume :: real
  p_type_top :: string
  p_type_bottom :: string
  p_h_filter :: real
  p_d_filter :: real
  p_d_can :: real
  p_r :: real
  p_r_constrained :: bool
  p_align_top_strategy :: string
  p_align_filter_strategy :: string

text \<open>
  The check box is built without \<open>setTristate\<close>: it is checked or not. The parent window
  is seen through the calls the editor makes on it.
\<close>

datatype check_state = Unchecked | Checked

datatype owner_call = BuildModule cad | Refresh

datatype dialog_box = Critical string string

record editor =
  parent :: "owner_call list option"
  cad_obj :: "cad option"
  test :: bool
  spin_vol :: real
  combo_top :: string
  combo_bottom :: string
  spin_h_filter :: real
  spin_d_filter :: real
  spin_d_can :: real
  spin_d_can_enabled :: bool
  spin_r :: real
  spin_r_enabled :: bool
  check_r_constrained :: check_state
  check_r_constrained_enabled :: bool
  combo_align_top_strategy :: string
  combo_align_filter_strategy :: string
  table_io :: "row list"
  dict_inputs :: "(string \<times> side_io) list"
  dict_outputs :: "(string \<times> side_io) list"
  dict_top_inlets :: "(string \<times> top_io) list"
  params :: "params option"
  messages :: "dialog_box list"
  dialog_closed :: bool

definition SIDE_INPUT :: string where "SIDE_INPUT = ''Side input''"
definition SIDE_OUTPUT :: string where "SIDE_OUTPUT = ''Side output''"
definition DEF_OUTPUT :: string where "DEF_OUTPUT = ''Default output''"
definition TOP_LUER :: string where "TOP_LUER = ''Luer top inlet''"
definition TOP_CUSTOM :: string where "TOP_CUSTOM = ''Custom top inlet''"

text \<open>
  \<open>__init__\<close> for a new module (\<open>cad_obj=None\<close>, so \<open>restoreParams\<close> returns at once).
  \<open>ui\<close> is the editor as \<open>initUI\<close> left its widgets.
\<close>

definition ChemModule_init :: "owner_call list option \<Rightarrow> editor \<Rightarrow> editor" where
  "ChemModule_init parent' ui =
     ui\<lparr>parent := parent', cad_obj := None, test := (parent' = None),
        table_io := [], dict_inputs := [], dict_outputs := [], dict_top_inlets := [],
        params := None, messages := [], dialog_closed := False\<rparr>"

definition critical :: "string \<Rightarrow> string \<Rightarrow> editor \<Rightarrow> editor" where
  "critical title mes st = st\<lparr>messages := messages st @ [Critical title mes]\<rparr>"

definition close :: "editor \<Rightarrow> editor" where
  "close st = st\<lparr>dialog_closed := True\<rparr>"

subsection \<open>The slots of the form\<close>

definition bottomTypeChanged :: "collab \<Rightarrow> editor \<Rightarrow> editor" where
  "bottomTypeChanged col st =
     (if combo_bottom st \<in> set (BOTTOMS_PIPE col)
      then st\<lparr>spin_d_can_enabled := True\<rparr>
      else st\<lparr>spin_d_can_enabled := False\<rparr>)"

definition rConstraintChanged :: "editor \<Rightarrow> editor" where
  "rConstraintChanged st =
     (case check_r_constrained st of
        Unchecked \<Rightarrow> st\<lparr>spin_r_enabled := False\<rparr>
      | Checked \<Rightarrow> st\<lparr>spin_r_enabled := True\<rparr>)"

text \<open>
  \<open>check_r_constrained.setCheckState\<close>: the box emits \<open>stateChanged\<close>, connected to
  \<open>rConstraintChanged\<close>, when its state changes and only then.
\<close>

definition setCheckState :: "check_state \<Rightarrow> editor \<Rightarrow> editor" where
  "setCheckState s st =
     (if check_r_constrained st = s then st
      else rConstraintChanged (st\<lparr>check_r_constrained := s\<rparr>))"

definition topTypeChanged :: "collab \<Rightarrow> editor \<Rightarrow> editor" where
  "topTypeChanged col st =
     (if combo_top st \<in> set (THREADED_TOPS col)
      then (setCheckState Checked st)
             \<lparr>spin_r_enabled := False, check_r_constrained_enabled := False\<rparr>
      else st\<lparr>check_r_constrained_enabled := True\<rparr>)"

text \<open>
  The user picks a top in the combo box: \<open>currentIndexChanged\<close>, connected to
  \<open>topTypeChanged\<close>, is emitted when the choice differs from the current one.
\<close>

definition choose_top :: "collab \<Rightarrow> string \<Rightarrow> editor \<Rightarrow> editor" where
  "choose_top col t st =
     (if combo_top st = t then st else topTypeChanged col (st\<lparr>combo_top := t\<rparr>))"

definition readForm :: "editor \<Rightarrow> editor" where
  "readForm st =
     st\<lparr>params := Some
       \<lparr>p_volume = spin_vol st,
        p_type_top = combo_top st,
        p_type_bottom = combo_bottom st,
        p_h_filter = spin_h_filter st,
        p_d_filter = spin_d_filter st,
        p_d_can = spin_d_can st,
        p_r = spin_r st,
        p_r_constrained = (case check_r_constrained st of Unchecked \<Rightarrow> False | Checked \<Rightarrow> True),
        p_align_top_strategy =
          (if combo_align_top_strategy st = ''Expand body'' then ''expand''
           else if combo_align_top_strategy st = ''Lift reactor'' then ''lift''
           else combo_align_top_strategy st),
        p_align_filter_strategy =
          (if combo_align_filter_strategy st = ''Adapt'' then ''adapt''
           else if combo_align_filter_strategy st = ''Lift reactor'' then ''lift''
           else combo_align_filter_strategy st)\<rparr>\<rparr>"

subsection \<open>The I/O dictionaries and their table\<close>

definition addNewRow :: "string \<Rightarrow> string \<Rightarrow> bool \<Rightarrow> editor \<Rightarrow> editor" where
  "addNewRow name type_io conn st =
     st\<lparr>table_io := table_io st @
       [\<lparr>row_name = name,
         row_type = (if type_io = ''custom'' then ''Custom top inlet''
                     else if type_io = ''luer'' then ''Luer top inlet''
                     else type_io),
         row_connected = (if conn then ''Connected'' else ''Not connected''),
         row_selectable = (type_io \<noteq> DEF_OUTPUT)\<rparr>]\<rparr>"

text \<open>
  \<open>addInput(params)\<close>: \<open>name\<close> is \<open>params["name"]\<close> and \<open>io\<close> the dictionary after
  \<open>del params["name"]\<close>.
\<close>

definition addInput :: "string \<Rightarrow> side_io \<Rightarrow> editor \<Rightarrow> editor" where
  "addInput name io st =
     (let st1 = (if name \<notin> set (map fst (dict_inputs st))
                 then addNewRow name (io_type_io io) False st else st)
      in st1\<lparr>dict_inputs := AList.update name io (dict_inputs st1)\<rparr>)"

definition addOutput :: "string \<Rightarrow> side_io \<Rightarrow> editor \<Rightarrow> editor" where
  "addOutput name io st =
     (let st1 = (if name \<notin> set (map fst (dict_outputs st))
                 then addNewRow name (io_type_io io) False st else st)
      in st1\<lparr>dict_outputs := AList.update name io (dict_outputs st1)\<rparr>)"

definition addTopInlet :: "string \<Rightarrow> top_io \<Rightarrow> editor \<Rightarrow> editor" where
  "addTopInlet name io st =
     (let st1 = (if name \<notin> set (map fst (dict_top_inlets st))
                 then addNewRow name (top_type_io io) False st else st)
      in st1\<lparr>dict_top_inlets := AList.update name io (dict_top_inlets st1)\<rparr>)"

definition removeRow :: "nat \<Rightarrow> editor \<Rightarrow> editor" where
  "removeRow i st = st\<lparr>table_io := take i (table_io st) @ drop (Suc i) (table_io st)\<rparr>"

text \<open>
  \<open>deleteIO\<close>. \<open>selectedRows\<close> is what \<open>table_io.selectionModel().selectedRows()\<close> returns
  when the button is clicked; the table gives no item for a row it does not have. Each
  \<open>del\<close> raises \<open>KeyError\<close> for a name its dictionary does not hold, and what was done
  before stays done.
\<close>

definition deleteIO :: "nat list \<Rightarrow> editor \<Rightarrow> editor \<times> exn option" where
  "deleteIO selectedRows st =
     (case selectedRows of
        [] \<Rightarrow> (st, None)
      | i # _ \<Rightarrow>
          if length (table_io st) \<le> i then (st, Some (noneAttributeError ''text''))
          else
            let name = row_name (table_io st ! i); type_io = row_type (table_io st ! i) in
            if type_io = DEF_OUTPUT then (st, None)
            else if type_io = SIDE_INPUT then
              (if name \<notin> set (map fst (dict_inputs st)) then (st, Some (KeyError name))
               else
                 let st1 = st\<lparr>dict_inputs := AList.delete name (dict_inputs st)\<rparr> in
                 case cad_obj st1 of
                   None \<Rightarrow> (removeRow i st1, None)
                 | Some c \<Rightarrow>
                     if name \<notin> set (map fst (inputs c)) then (st1, Some (KeyError name))
                     else (removeRow i
                             (st1\<lparr>cad_obj := Some (c\<lparr>inputs := AList.delete name (inputs c)\<rparr>)\<rparr>),
                           None))
            else if type_io = SIDE_OUTPUT then
              (if name \<notin> set (map fst (dict_outputs st)) then (st, Some (KeyError name))
               else
                 let st1 = st\<lparr>dict_outputs := AList.delete name (dict_outputs st)\<rparr> in
                 case cad_obj st1 of
                   None \<Rightarrow> (removeRow i st1, None)
                 | Some c \<Rightarrow>
                     if name \<notin> set (map fst (outputs c)) then (st1, Some (KeyError name))
                     else (removeRow i
                             (st1\<lparr>cad_obj := Some (c\<lparr>outputs := AList.delete name (outputs c)\<rparr>)\<rparr>),
                           None))
            else
              (if name \<notin> set (map fst (dict_top_inlets st)) then (st, Some (KeyError name))
               else
                 let st1 = st\<lparr>dict_top_inlets := AList.delete name (dict_top_inlets st)\<rparr> in
                 case cad_obj st1 of
                   None \<Rightarrow> (removeRow i st1, None)
                 | Some c \<Rightarrow>
                     if name \<notin> set (map fst (top_inlets c)) then (st1, Some (KeyError name))
                     else (removeRow i
                             (st1\<lparr>cad_obj := Some (c\<lparr>top_inlets := AList.delete name (top_inlets c)\<rparr>)\<rparr>),
                           None)))"

text \<open>
  What the two I/O dialogs do to the editor when they are accepted: one call of
  \<open>addInput\<close>, \<open>addOutput\<close> or \<open>addTopInlet\<close>, for a new I/O or for an edited one.
\<close>

datatype io_edit =
    AddInput string side_io
  | AddOutput string side_io
  | AddTopInlet string top_io

fun apply_edit :: "io_edit \<Rightarrow> editor \<Rightarrow> editor" where
  "apply_edit (AddInput name io) st = addInput name io st"
| "apply_edit (AddOutput name io) st = addOutput name io st"
| "apply_edit (AddTopInlet name io) st = addTopInlet name io st"

subsection \<open>Building the I/O of a CAD object\<close>

text \<open>The calls that the loops of \<open>buildInputs\<close>, \<open>buildOutputs\<close> and \<open>buildTopInlets\<close> make.\<close>

definition input_calls :: "collab \<Rightarrow> editor \<Rightarrow> cad_call list" where
  "input_calls col st =
     map (\<lambda>(name, in_io).
            addInputPercentage col name (io_height_per in_io) (io_angle in_io)
              (io_diameter in_io) (io_external in_io))
         (dict_inputs st)"

definition output_calls :: "collab \<Rightarrow> editor \<Rightarrow> cad_call list" where
  "output_calls col st =
     map (\<lambda>(name, out_io).
            addOutputPercentage col name (io_height_per out_io) (io_angle out_io)
              (io_diameter out_io) (io_external out_io))
         (filter (\<lambda>(name, out_io). name \<noteq> ''default'') (dict_outputs st))"

definition top_inlet_calls :: "collab \<Rightarrow> editor \<Rightarrow> cad_call list" where
  "top_inlet_calls col st =
     map (\<lambda>(name, io).
            addCustomTopInlet col name (top_diameter io) (top_length io)
              (top_walls io) (top_type_io io))
         (dict_top_inlets st)"

definition buildInputs :: "collab \<Rightarrow> editor \<Rightarrow> cad_call" where
  "buildInputs col st = run_steps (input_calls col st)"

definition buildOutputs :: "collab \<Rightarrow> editor \<Rightarrow> cad_call" where
  "buildOutputs col st = run_steps (output_calls col st)"

text \<open>
  \<open>buildTopInlets\<close> returns at the first \<open>IncompatibilityError\<close> of \<open>addCustomTopInlet\<close>
  and, after the message box, at a \<open>ConstraintError\<close> of \<open>autoPlaceTopInlets\<close>; any other
  exception leaves it. (The text of the message box is given without the white space
  around it.)
\<close>

definition buildTopInlets :: "collab \<Rightarrow> editor \<Rightarrow> cad \<Rightarrow> editor \<times> cad \<times> exn option" where
  "buildTopInlets col st c =
     (case run_steps (top_inlet_calls col st) c of
        (c1, Some e) \<Rightarrow>
          if isIncompatibilityError e then (st, c1, None) else (st, c1, Some e)
      | (c1, None) \<Rightarrow>
          (case autoPlaceTopInlets col c1 of
             (c2, Some e) \<Rightarrow>
               if isConstraintError e
               then (critical ''Auto-placement error''
                       ''Impossible to auto-place the top inlets. Collision ?'' st, c2, None)
               else (st, c2, Some e)
           | (c2, None) \<Rightarrow> (st, c2, None)))"

text \<open>
  The body of the \<open>try\<close> that \<open>_buildNewModule\<close> and \<open>_updateModule\<close> share: inputs,
  outputs, top inlets, left at the first exception.
\<close>

definition buildIOs :: "collab \<Rightarrow> editor \<Rightarrow> cad \<Rightarrow> editor \<times> cad \<times> exn option" where
  "buildIOs col st c =
     (case buildInputs col st c of
        (c1, Some e) \<Rightarrow> (st, c1, Some e)
      | (c1, None) \<Rightarrow>
          (case buildOutputs col st c1 of
             (c2, Some e) \<Rightarrow> (st, c2, Some e)
           | (c2, None) \<Rightarrow> buildTopInlets col st c2))"

subsection \<open>The commit\<close>

definition buildCADObject :: "collab \<Rightarrow> editor \<Rightarrow> exn + cad" where
  "buildCADObject col st =
     (case params st of
        None \<Rightarrow> Inl (KeyError ''volume'')
      | Some p \<Rightarrow>
          (case construct col (p_volume p) (p_type_top p) (p_type_bottom p) (p_d_filter p)
                  (p_h_filter p) (p_d_can p) (p_align_top_strategy p)
                  (p_align_filter_strategy p) of
             Inl e \<Rightarrow> Inl e
           | Inr reactor \<Rightarrow>
               if p_r_constrained p \<and> p_type_top p \<notin> set (THREADED_TOPS col)
               then (case set_r col (p_r p) reactor of
                       (reactor', None) \<Rightarrow> Inr reactor'
                     | (reactor', Some e) \<Rightarrow> Inl e)
               else Inr reactor))"

text \<open>
  The result of \<open>_buildNewModule\<close> and of \<open>_updateModule\<close> is the boolean returned, or the
  exception that no handler of theirs catches.
\<close>

definition buildNewModule :: "collab \<Rightarrow> editor \<Rightarrow> editor \<times> (exn + bool)" where
  "buildNewModule col st =
     (case buildCADObject col st of
        Inl e \<Rightarrow>
          (critical ''Creation error'' (''Impossible to create filter reactor: '' @ str e) st,
           Inr False)
      | Inr reactor \<Rightarrow>
          (case buildIOs col st reactor of
             (st1, reactor1, Some e) \<Rightarrow>
               (critical ''I/Os error'' (''Impossible to create I/Os: '' @ str e) st1, Inr False)
           | (st1, reactor1, None) \<Rightarrow>
               (case parent st1 of
                  None \<Rightarrow> (st1, Inl (noneAttributeError ''buildModule''))
                | Some calls \<Rightarrow>
                    (st1\<lparr>parent := Some (calls @ [BuildModule reactor1])\<rparr>, Inr True))))"

text \<open>
  The assignments of \<open>_updateModule\<close> to the live object, in the order of the source: the
  radius or its constraint, then the eight other parameters.
\<close>

definition update_steps :: "collab \<Rightarrow> params \<Rightarrow> cad_call list" where
  "update_steps col p =
     [if p_r_constrained p \<and> p_type_top p \<notin> set (THREADED_TOPS col)
      then set_r col (p_r p) else set_r_constrained col False,
      set_volume col (p_volume p),
      set_type_top col (p_type_top p),
      set_type_bottom col (p_type_bottom p),
      set_d_can col (p_d_can p),
      set_h_filter col (p_h_filter p),
      set_d_filter col (p_d_filter p),
      set_align_top_strategy col (p_align_top_strategy p),
      set_align_filter_strategy col (p_align_filter_strategy p)]"

definition updateModule :: "collab \<Rightarrow> editor \<Rightarrow> editor \<times> (exn + bool)" where
  "updateModule col st =
     (case buildCADObject col st of
        Inl e \<Rightarrow>
          (critical ''Update error'' (''Impossible to update reactor: '' @ str e) st, Inr False)
      | Inr tmp \<Rightarrow>
          (case params st of
             None \<Rightarrow> (st, Inl (KeyError ''r_constrained''))
           | Some p \<Rightarrow>
               (case cad_obj st of
                  None \<Rightarrow>
                    (st, Inl (noneAttributeError
                                (if p_r_constrained p \<and> p_type_top p \<notin> set (THREADED_TOPS col)
                                 then ''r'' else ''r_constrained'')))
                | Some c \<Rightarrow>
                    (case run_steps (update_steps col p) c of
                       (c1, Some e) \<Rightarrow> (st\<lparr>cad_obj := Some c1\<rparr>, Inl e)
                     | (c1, None) \<Rightarrow>
                         (case buildIOs col st c1 of
                            (st1, c2, Some e) \<Rightarrow>
                              (critical ''I/Os error'' (''Impossible to create I/Os: '' @ str e)
                                 (st1\<lparr>cad_obj := Some c2\<rparr>),
                               Inr False)
                          | (st1, c2, None) \<Rightarrow>
                              (case parent st1 of
                                 None \<Rightarrow>
                                   (critical ''Refresh error''
                                      (''Impossible to refresh filter reactor: ''
                                         @ str (noneAttributeError ''refresh''))
                                      (st1\<lparr>cad_obj := Some c2\<rparr>),
                                    Inr False)
                               | Some calls \<Rightarrow>
                                   (case parent_refresh col c2 of
                                      Some e \<Rightarrow>
                                        (critical ''Refresh error''
                                           (''Impossible to refresh filter reactor: '' @ str e)
                                           (st1\<lparr>cad_obj := Some c2,
                                                parent := Some (calls @ [Refresh])\<rparr>),
                                         Inr False)
                                    | None \<Rightarrow>
                                        (st1\<lparr>cad_obj := Some c2,
                                             parent := Some (calls @ [Refresh])\<rparr>,
                                         Inr True))))))))"

text \<open>
  \<open>buildModule\<close>, the slot of the OK button. When an exception leaves the build, the
  slot is left too and \<open>self.close()\<close> is not reached.
\<close>

definition buildModule :: "collab \<Rightarrow> editor \<Rightarrow> editor \<times> exn option" where
  "buildModule col st =
     (let st1 = readForm st in
      if \<not> test st1 then
        (case (if cad_obj st1 = None then buildNewModule col st1 else updateModule col st1) of
           (st2, Inl e) \<Rightarrow> (st2, Some e)
         | (st2, Inr b) \<Rightarrow> (close st2, None))
      else (close st1, None))"

subsection \<open>The CAD class as the specification describes it\<close>

text \<open>
  Modelled from the spec: the class \<open>FilterReactorCAD\<close>, which this file of the repository
  imports and does not define. The specification says of it: \<^emph>\<open>if type\_top is in the
  threaded subset, radius\_constrained is forced true and radius is not independently
  editable (it is derived by the geometry collaborator)\<close>; a threaded top is \<^emph>\<open>a top style
  whose radius is mechanically fixed by a threaded fitting\<close>; the constructor \<^emph>\<open>fails with
  a construction error\<close>; attaching an input, an output or a top inlet \<^emph>\<open>may fail with an
  incompatibility or constraint condition\<close>, auto-placement \<^emph>\<open>with a collision
  condition\<close>; the default output is one \<^emph>\<open>the collaborator creates implicitly\<close>.
  What the specification leaves to the geometry library is the record \<open>geometry\<close>: which
  tops are threaded, the radius a threaded top fixes, the object a successful construction
  gives, and when an operation fails.
\<close>

record geometry =
  threaded :: "string list"
  bottoms_pipe :: "string list"
  thread_radius :: "string \<Rightarrow> real"
  new_object :: "real \<Rightarrow> string \<Rightarrow> string \<Rightarrow> real \<Rightarrow> real \<Rightarrow> real \<Rightarrow> string \<Rightarrow> string \<Rightarrow> exn + cad"
  input_error :: "string \<Rightarrow> cad \<Rightarrow> exn option"
  output_error :: "string \<Rightarrow> cad \<Rightarrow> exn option"
  top_inlet_error :: "string \<Rightarrow> string \<Rightarrow> cad \<Rightarrow> exn option"
  placement_error :: "cad \<Rightarrow> exn option"
  refresh_error :: "cad \<Rightarrow> exn option"

text \<open>
  Modelled from the spec: the invariant of the handle, which the missing class keeps. A
  threaded top forces the constraint and gives the radius of its thread.
\<close>

definition enforce :: "geometry \<Rightarrow> cad \<Rightarrow> cad" where
  "enforce g c =
     (if type_top c \<in> set (threaded g)
      then c\<lparr>r := thread_radius g (type_top c), r_constrained := True\<rparr>
      else c)"

text \<open>
  Modelled from the spec: the missing constructor. It fails with a construction error or
  gives an object that satisfies the invariant.
\<close>

definition spec_construct ::
  "geometry \<Rightarrow> real \<Rightarrow> string \<Rightarrow> string \<Rightarrow> real \<Rightarrow> real \<Rightarrow> real \<Rightarrow> string \<Rightarrow> string \<Rightarrow> exn + cad" where
  "spec_construct g v t_top t_bottom d_f h_f d_c ats afs =
     (case new_object g v t_top t_bottom d_f h_f d_c ats afs of
        Inl e \<Rightarrow> Inl e
      | Inr c \<Rightarrow> Inr (enforce g c))"

text \<open>
  Modelled from the spec: an assignment to a parameter of the missing handle writes the
  field, the handle then restores its invariant.
\<close>

definition spec_set :: "geometry \<Rightarrow> (cad \<Rightarrow> cad) \<Rightarrow> cad_call" where
  "spec_set g f c = (enforce g (f c), None)"

text \<open>
  Modelled from the spec: the missing attachments of an input, an output and a top inlet.
  Each fails with the condition the geometry gives, or stores the I/O under its name.
\<close>

definition spec_addInput :: "geometry \<Rightarrow> string \<Rightarrow> real \<Rightarrow> real \<Rightarrow> real \<Rightarrow> bool \<Rightarrow> cad_call" where
  "spec_addInput g name h a d e c =
     (case input_error g name c of
        Some x \<Rightarrow> (c, Some x)
      | None \<Rightarrow>
          (c\<lparr>inputs := AList.update name
                 \<lparr>cio_height_per = h, cio_angle = a, cio_diameter = d, cio_external = e,
                  cio_connected = False\<rparr> (inputs c)\<rparr>, None))"

definition spec_addOutput :: "geometry \<Rightarrow> string \<Rightarrow> real \<Rightarrow> real \<Rightarrow> real \<Rightarrow> bool \<Rightarrow> cad_call" where
  "spec_addOutput g name h a d e c =
     (case output_error g name c of
        Some x \<Rightarrow> (c, Some x)
      | None \<Rightarrow>
          (c\<lparr>outputs := AList.update name
                 \<lparr>cio_height_per = h, cio_angle = a, cio_diameter = d, cio_external = e,
                  cio_connected = False\<rparr> (outputs c)\<rparr>, None))"

definition spec_addTopInlet :: "geometry \<Rightarrow> string \<Rightarrow> real \<Rightarrow> real \<Rightarrow> real \<Rightarrow> string \<Rightarrow> cad_call" where
  "spec_addTopInlet g name d l w t c =
     (case top_inlet_error g name t c of
        Some x \<Rightarrow> (c, Some x)
      | None \<Rightarrow>
          (c\<lparr>top_inlets := AList.update name
                 \<lparr>ctop_diameter = d, ctop_length = l, ctop_walls = w, ctop_type_io = t\<rparr>
                 (top_inlets c)\<rparr>, None))"

text \<open>
  Modelled from the spec: the missing class as a whole; the placement of the top inlets
  fails with a collision or leaves the object as it is.
\<close>

definition spec_collab :: "geometry \<Rightarrow> collab" where
  "spec_collab g =
     \<lparr>THREADED_TOPS = threaded g,
      BOTTOMS_PIPE = bottoms_pipe g,
      construct = spec_construct g,
      set_r = (\<lambda>v. spec_set g (\<lambda>c. c\<lparr>r := v\<rparr>)),
      set_r_constrained = (\<lambda>v. spec_set g (\<lambda>c. c\<lparr>r_constrained := v\<rparr>)),
      set_volume = (\<lambda>v. spec_set g (\<lambda>c. c\<lparr>volume := v\<rparr>)),
      set_type_top = (\<lambda>v. spec_set g (\<lambda>c. c\<lparr>type_top := v\<rparr>)),
      set_type_bottom = (\<lambda>v. spec_set g (\<lambda>c. c\<lparr>type_bottom := v\<rparr>)),
      set_d_can = (\<lambda>v. spec_set g (\<lambda>c. c\<lparr>d_can := v\<rparr>)),
      set_h_filter = (\<lambda>v. spec_set g (\<lambda>c. c\<lparr>h_filter := v\<rparr>)),
      set_d_filter = (\<lambda>v. spec_set g (\<lambda>c. c\<lparr>d_filter := v\<rparr>)),
      set_align_top_strategy = (\<lambda>v. spec_set g (\<lambda>c. c\<lparr>align_top_strategy := v\<rparr>)),
      set_align_filter_strategy = (\<lambda>v. spec_set g (\<lambda>c. c\<lparr>align_filter_strategy := v\<rparr>)),
      addInputPercentage = spec_addInput g,
      addOutputPercentage = spec_addOutput g,
      addCustomTopInlet = spec_addTopInlet g,
      autoPlaceTopInlets = (\<lambda>c. (c, placement_error g c)),
      parent_refresh = refresh_error g\<rparr>"

text \<open>A call that leaves the top, the radius and its constraint of every object as they are.\<close>

definition keeps_radius :: "cad_call \<Rightarrow> bool" where
  "keeps_radius m =
     (\<forall>c. type_top (fst (m c)) = type_top c \<and> r (fst (m c)) = r c
          \<and> r_constrained (fst (m c)) = r_constrained c)"

subsection \<open>Values for the examples\<close>

text \<open>
  A CAD class and a parent window for the examples. An assignment writes its field. A
  filter wider than 100 cannot be built; an input named \<open>clash\<close> cannot be attached; the
  top \<open>Open\<close> takes no custom inlet and no top takes an inlet named \<open>clash\<close>; more than
  two top inlets cannot be placed, and none on a reactor of volume 0; the parent window
  cannot show a reactor of volume 1.
\<close>

definition example_io :: cad_io where
  "example_io = \<lparr>cio_height_per = 0, cio_angle = 0, cio_diameter = 2, cio_external = False,
                 cio_connected = False\<rparr>"

definition example_collab :: collab where
  "example_collab =
     \<lparr>THREADED_TOPS = [''Threaded''],
      BOTTOMS_PIPE = [''Flat''],
      construct = (\<lambda>v t_top t_bottom d_f h_f d_c ats afs.
        if 100 < d_f then Inl (OtherException ''filter too large'')
        else Inr \<lparr>volume = v, type_top = t_top, type_bottom = t_bottom, h_filter = h_f,
                  d_filter = d_f, d_can = d_c, r = 12, r_constrained = False,
                  align_top_strategy = ats, align_filter_strategy = afs,
                  inputs = [], outputs = [(''default'', example_io)], top_inlets = []\<rparr>),
      set_r = (\<lambda>v c. (c\<lparr>r := v\<rparr>, None)),
      set_r_constrained = (\<lambda>v c. (c\<lparr>r_constrained := v\<rparr>, None)),
      set_volume = (\<lambda>v c. (c\<lparr>volume := v\<rparr>, None)),
      set_type_top = (\<lambda>v c. (c\<lparr>type_top := v\<rparr>, None)),
      set_type_bottom = (\<lambda>v c. (c\<lparr>type_bottom := v\<rparr>, None)),
      set_d_can = (\<lambda>v c. (c\<lparr>d_can := v\<rparr>, None)),
      set_h_filter = (\<lambda>v c. (c\<lparr>h_filter := v\<rparr>, None)),
      set_d_filter = (\<lambda>v c. (c\<lparr>d_filter := v\<rparr>, None)),
      set_align_top_strategy = (\<lambda>v c. (c\<lparr>align_top_strategy := v\<rparr>, None)),
      set_align_filter_strategy = (\<lambda>v c. (c\<lparr>align_filter_strategy := v\<rparr>, None)),
      addInputPercentage = (\<lambda>name h a d e c.
        if name = ''clash'' then (c, Some (ConstraintError ''clash''))
        else (c\<lparr>inputs := AList.update name
                    \<lparr>cio_height_per = h, cio_angle = a, cio_diameter = d, cio_external = e,
                     cio_connected = False\<rparr> (inputs c)\<rparr>, None)),
      addOutputPercentage = (\<lambda>name h a d e c.
        (c\<lparr>outputs := AList.update name
               \<lparr>cio_height_per = h, cio_angle = a, cio_diameter = d, cio_external = e,
                cio_connected = False\<rparr> (outputs c)\<rparr>, None)),
      addCustomTopInlet = (\<lambda>name d l w t c.
        if type_top c = ''Open'' then (c, Some (IncompatibilityError ''no custom top''))
        else if name = ''clash'' then (c, Some (ConstraintError ''clash''))
        else (c\<lparr>top_inlets := AList.update name
                    \<lparr>ctop_diameter = d, ctop_length = l, ctop_walls = w, ctop_type_io = t\<rparr>
                    (top_inlets c)\<rparr>, None)),
      autoPlaceTopInlets = (\<lambda>c.
        (c, if 2 < length (top_inlets c) then Some (ConstraintError ''collision'')
            else if volume c = 0 then Some (OtherException ''no volume'') else None)),
      parent_refresh = (\<lambda>c.
        if volume c = 1 then Some (OtherException ''no display'') else None)\<rparr>"

text \<open>
  A geometry for the class of the specification: the same tops and the same
  constructions, a thread of radius 9, and no failure of an I/O call.
\<close>

definition example_geometry :: geometry where
  "example_geometry =
     \<lparr>threaded = [''Threaded''],
      bottoms_pipe = [''Flat''],
      thread_radius = (\<lambda>t. 9),
      new_object = construct example_collab,
      input_error = (\<lambda>name c. None),
      output_error = (\<lambda>name c. None),
      top_inlet_error = (\<lambda>name t c. None),
      placement_error = (\<lambda>c. None),
      refresh_error = (\<lambda>c. None)\<rparr>"

text \<open>
  The editor of a new module as \<open>__init__\<close> leaves it, with the values \<open>initUI\<close> gives
  the spin boxes (20, 3, 20) and the first choice of each combo box of the example.
\<close>

definition example_ui :: editor where
  "example_ui =
     \<lparr>parent = None, cad_obj = None, test = True,
      spin_vol = 20, combo_top = ''Closed'', combo_bottom = ''Flat'',
      spin_h_filter = 3, spin_d_filter = 20, spin_d_can = 1, spin_d_can_enabled = True,
      spin_r = 0, spin_r_enabled = False,
      check_r_constrained = Unchecked, check_r_constrained_enabled = True,
      combo_align_top_strategy = ''Expand body'', combo_align_filter_strategy = ''Adapt'',
      table_io = [], dict_inputs = [], dict_outputs = [], dict_top_inlets = [],
      params = None, messages = [], dialog_closed = False\<rparr>"

definition example_input :: side_io where
  "example_input = \<lparr>io_type_io = ''Side input'', io_height_per = 1 / 2, io_angle = 0,
                    io_diameter = 2, io_external = False\<rparr>"

definition example_output :: side_io where
  "example_output = \<lparr>io_type_io = ''Side output'', io_height_per = 1 / 4, io_angle = 90,
                     io_diameter = 2, io_external = False\<rparr>"

definition example_inlet :: top_io where
  "example_inlet = \<lparr>top_type_io = ''custom'', top_diameter = 3, top_length = 10,
                    top_walls = 1\<rparr>"

text \<open>
  An existing module under edit: a live CAD object with a constrained radius, a top that
  is not threaded and its default output, restored into the form and the I/O table (the
  type kept with a restored entry is the one of its row; no function reads it).
\<close>

definition example_live :: cad where
  "example_live =
     \<lparr>volume = 20, type_top = ''Closed'', type_bottom = ''Flat'', h_filter = 3,
      d_filter = 20, d_can = 1, r = 5, r_constrained = True,
      align_top_strategy = ''expand'', align_filter_strategy = ''adapt'',
      inputs = [], outputs = [(''default'', example_io)], top_inlets = []\<rparr>"

definition example_edit :: editor where
  "example_edit =
     example_ui\<lparr>parent := Some [], cad_obj := Some example_live, test := False,
       spin_r := 5, spin_r_enabled := True, check_r_constrained := Checked,
       table_io := [\<lparr>row_name = ''default'', row_type = ''Default output'',
                     row_connected = ''Not connected'', row_selectable = False\<rparr>],
       dict_outputs := [(''default'',
                         \<lparr>io_type_io = ''Default output'', io_height_per = 0, io_angle = 0,
                          io_diameter = 2, io_external = False\<rparr>)]\<rparr>"

text \<open>A top inlet of a CAD object, as attached from \<open>example_inlet\<close>.\<close>

definition example_top :: "string \<Rightarrow> string \<times> cad_top" where
  "example_top name = (name, \<lparr>ctop_diameter = 3, ctop_length = 10, ctop_walls = 1,
                              ctop_type_io = ''custom''\<rparr>)"

text \<open>
  The same module when its live object also has a side input, a side output and a top
  inlet: \<open>restoreIO\<close> gives each a dictionary entry and a row, inputs first, then
  outputs, then top inlets.
\<close>

definition example_live_ios :: cad where
  "example_live_ios =
     example_live\<lparr>inputs := [(''in1'', example_io)],
                   outputs := [(''default'', example_io), (''out1'', example_io)],
                   top_inlets := [example_top ''t1'']\<rparr>"

definition example_edit_ios :: editor where
  "example_edit_ios =
     example_edit
       \<lparr>cad_obj := Some example_live_ios,
        table_io := [\<lparr>row_name = ''in1'', row_type = ''Side input'',
                      row_connected = ''Not connected'', row_selectable = True\<rparr>,
                     \<lparr>row_name = ''default'', row_type = ''Default output'',
                      row_connected = ''Not connected'', row_selectable = False\<rparr>,
                     \<lparr>row_name = ''out1'', row_type = ''Side output'',
                      row_connected = ''Not connected'', row_selectable = True\<rparr>,
                     \<lparr>row_name = ''t1'', row_type = ''Custom top inlet'',
                      row_connected = ''Not connected'', row_selectable = True\<rparr>],
        dict_inputs := [(''in1'',
                         \<lparr>io_type_io = ''Side input'', io_height_per = 0, io_angle = 0,
                          io_diameter = 2, io_external = False\<rparr>)],
        dict_outputs := [(''default'',
                          \<lparr>io_type_io = ''Default output'', io_height_per = 0, io_angle = 0,
                           io_diameter = 2, io_external = False\<rparr>),
                         (''out1'',
                          \<lparr>io_type_io = ''Side output'', io_height_per = 0, io_angle = 0,
                           io_diameter = 2, io_external = False\<rparr>)],
        dict_top_inlets := [(''t1'', example_inlet)]\<rparr>"

text \<open>What \<open>readForm\<close> reads from the form of that module for a volume and a top.\<close>

definition example_params :: "real \<Rightarrow> string \<Rightarrow> params" where
  "example_params v t_top =
     \<lparr>p_volume = v, p_type_top = t_top, p_type_bottom = ''Flat'', p_h_filter = 3,
      p_d_filter = 20, p_d_can = 1, p_r = 5, p_r_constrained = True,
      p_align_top_strategy = ''expand'', p_align_filter_strategy = ''adapt''\<rparr>"

text \<open>
  A new module with a parent window and one side input (volume 20, height fraction 1/2,
  angle 0, diameter 2, not external); the CAD object the example class builds for a
  volume and a top, and its I/O once attached.
\<close>

definition example_new :: editor where
  "example_new = addInput ''in1'' example_input (ChemModule_init (Some []) example_ui)"

definition example_reactor :: "real \<Rightarrow> string \<Rightarrow> cad" where
  "example_reactor v t_top =
     \<lparr>volume = v, type_top = t_top, type_bottom = ''Flat'', h_filter = 3,
      d_filter = 20, d_can = 1, r = 12, r_constrained = False,
      align_top_strategy = ''expand'', align_filter_strategy = ''adapt'',
      inputs = [], outputs = [(''default'', example_io)], top_inlets = []\<rparr>"

definition example_in1 :: "string \<times> cad_io" where
  "example_in1 = (''in1'', \<lparr>cio_height_per = 1 / 2, cio_angle = 0, cio_diameter = 2,
                           cio_external = False, cio_connected = False\<rparr>)"

text \<open>
  The same new module when the outputs \<open>default\<close> and \<open>out1\<close> are registered too, in
  that order, and the output of a CAD object as attached from \<open>example_output\<close>.
\<close>

definition example_new_outputs :: editor where
  "example_new_outputs =
     addOutput ''out1'' example_output (addOutput ''default'' example_output example_new)"

definition example_out1 :: "string \<times> cad_io" where
  "example_out1 = (''out1'', \<lparr>cio_height_per = 1 / 4, cio_angle = 90, cio_diameter = 2,
                             cio_external = False, cio_connected = False\<rparr>)"

section \<open>Properties\<close>

subsection \<open>Association lists as dictionaries\<close>

lemma update_new_key:
  "k \<notin> set (map fst al) \<Longrightarrow> AList.update k v al = al @ [(k, v)]"
  by (induction al) auto

lemma update_known_key:
  "k \<in> set (map fst al) \<Longrightarrow> map fst (AList.update k v al) = map fst al"
  by (simp add: update_keys)

subsection \<open>Evaluating the examples\<close>

lemmas ex_defs = example_new_def example_new_outputs_def example_out1_def example_edit_def example_edit_ios_def example_live_ios_def example_live_def example_params_def example_ui_def example_input_def example_output_def example_inlet_def
  example_io_def example_reactor_def example_in1_def example_top_def example_collab_def
  example_geometry_def
  ChemModule_init_def addInput_def addOutput_def addTopInlet_def addNewRow_def readForm_def
  spec_collab_def spec_construct_def spec_set_def spec_addInput_def spec_addOutput_def
  spec_addTopInlet_def enforce_def input_calls_def output_calls_def top_inlet_calls_def
  buildCADObject_def update_steps_def

subsection \<open>The I/O pass\<close>

lemma run_steps_append:
  "run_steps (xs @ ys) c =
     (case run_steps xs c of (c1, None) \<Rightarrow> run_steps ys c1 | (c1, Some e) \<Rightarrow> (c1, Some e))"
  by (induction xs arbitrary: c) (auto split: prod.splits option.splits)

lemma buildIOs_attach_raises:
  "run_steps (input_calls col st @ output_calls col st) c = (c1, Some e) \<Longrightarrow>
     buildIOs col st c = (st, c1, Some e)"
  by (auto simp add: buildIOs_def buildInputs_def buildOutputs_def run_steps_append
      split: prod.splits option.splits)

lemma buildIOs_attached:
  "run_steps (input_calls col st @ output_calls col st) c = (c1, None) \<Longrightarrow>
     buildIOs col st c = buildTopInlets col st c1"
  by (auto simp add: buildIOs_def buildInputs_def buildOutputs_def run_steps_append
      split: prod.splits option.splits)

lemma buildTopInlets_cases:
  "run_steps (top_inlet_calls col st) c = (c1, Some e) \<Longrightarrow>
     buildTopInlets col st c = (st, c1, if isIncompatibilityError e then None else Some e)"
  "run_steps (top_inlet_calls col st) c = (c1, None) \<Longrightarrow>
     autoPlaceTopInlets col c1 = (c2, Some e) \<Longrightarrow>
     buildTopInlets col st c
       = (if isConstraintError e
          then (critical ''Auto-placement error''
                  ''Impossible to auto-place the top inlets. Collision ?'' st, c2, None)
          else (st, c2, Some e))"
  "run_steps (top_inlet_calls col st) c = (c1, None) \<Longrightarrow>
     autoPlaceTopInlets col c1 = (c2, None) \<Longrightarrow>
     buildTopInlets col st c = (st, c2, None)"
  by (simp_all add: buildTopInlets_def)

lemma buildIOs_raises_same_editor:
  "buildIOs col st c = (st1, c1, Some e) \<Longrightarrow> st1 = st"
  by (auto simp add: buildIOs_def buildTopInlets_def split: prod.splits option.splits if_splits)

lemma buildIOs_parent:
  "buildIOs col st c = (st1, c1, x) \<Longrightarrow> parent st1 = parent st \<and> cad_obj st1 = cad_obj st"
  by (auto simp add: buildIOs_def buildTopInlets_def critical_def
      split: prod.splits option.splits if_splits)

lemma run_steps_all:
  "run_steps (input_calls col st @ output_calls col st @ top_inlet_calls col st
                @ [autoPlaceTopInlets col]) c = (c3, None) \<Longrightarrow>
     buildIOs col st c = (st, c3, None)"
  by (auto simp add: buildIOs_def buildInputs_def buildOutputs_def buildTopInlets_def
      run_steps_append split: prod.splits option.splits)

lemma new_construct_fails:
  "buildCADObject col st = Inl e \<Longrightarrow>
     buildNewModule col st
       = (critical ''Creation error'' (''Impossible to create filter reactor: '' @ str e) st,
          Inr False)"
  by (simp add: buildNewModule_def)

lemma new_ios_raise:
  "buildCADObject col st = Inr reactor \<Longrightarrow> buildIOs col st reactor = (st, c1, Some e) \<Longrightarrow>
     buildNewModule col st
       = (critical ''I/Os error'' (''Impossible to create I/Os: '' @ str e) st, Inr False)"
  by (simp add: buildNewModule_def)

lemma new_ios_return:
  "buildCADObject col st = Inr reactor \<Longrightarrow> buildIOs col st reactor = (st1, c1, None) \<Longrightarrow>
   parent st = Some calls \<Longrightarrow>
     buildNewModule col st = (st1\<lparr>parent := Some (calls @ [BuildModule c1])\<rparr>, Inr True)"
  using buildIOs_parent [of col st reactor st1 c1 None] by (simp add: buildNewModule_def)

lemma upd_ios_raise:
  "buildCADObject col st = Inr tmp \<Longrightarrow> params st = Some p \<Longrightarrow> cad_obj st = Some c \<Longrightarrow>
   run_steps (update_steps col p) c = (c1, None) \<Longrightarrow> buildIOs col st c1 = (st1, c2, Some e) \<Longrightarrow>
     updateModule col st
       = (critical ''I/Os error'' (''Impossible to create I/Os: '' @ str e)
            (st\<lparr>cad_obj := Some c2\<rparr>), Inr False)"
  using buildIOs_raises_same_editor [of col st c1 st1 c2 e] by (simp add: updateModule_def)

lemma upd_refresh:
  "buildCADObject col st = Inr tmp \<Longrightarrow> params st = Some p \<Longrightarrow> cad_obj st = Some c \<Longrightarrow>
   run_steps (update_steps col p) c = (c1, None) \<Longrightarrow> buildIOs col st c1 = (st1, c2, None) \<Longrightarrow>
   parent st = Some calls \<Longrightarrow>
     updateModule col st
       = (case parent_refresh col c2 of
            Some e \<Rightarrow>
              (critical ''Refresh error'' (''Impossible to refresh filter reactor: '' @ str e)
                 (st1\<lparr>cad_obj := Some c2, parent := Some (calls @ [Refresh])\<rparr>), Inr False)
          | None \<Rightarrow> (st1\<lparr>cad_obj := Some c2, parent := Some (calls @ [Refresh])\<rparr>, Inr True))"
  using buildIOs_parent [of col st c1 st1 c2 None] by (simp add: updateModule_def)

subsection \<open>The I/O dictionaries\<close>

text \<open>
  Claim C4. \<open>addInput\<close>, \<open>addOutput\<close> and \<open>addTopInlet\<close>: under a name its dictionary
  does not hold, one row is appended to the table (the rows before stay, the new last row
  carries the name) and the descriptor is stored as the last entry of the dictionary;
  under a name the dictionary holds, the table is unchanged, the keys of the dictionary
  and their order are unchanged, and the name now maps to the new descriptor.
\<close>

theorem addOrUpdate_semantics:
  "(name \<notin> set (map fst (dict_inputs st)) \<longrightarrow>
      length (table_io (addInput name io st)) = Suc (length (table_io st))
      \<and> butlast (table_io (addInput name io st)) = table_io st
      \<and> row_name (last (table_io (addInput name io st))) = name
      \<and> dict_inputs (addInput name io st) = dict_inputs st @ [(name, io)])
   \<and> (name \<in> set (map fst (dict_inputs st)) \<longrightarrow>
      table_io (addInput name io st) = table_io st
      \<and> map fst (dict_inputs (addInput name io st)) = map fst (dict_inputs st)
      \<and> map_of (dict_inputs (addInput name io st)) = (map_of (dict_inputs st))(name \<mapsto> io))
   \<and> (name \<notin> set (map fst (dict_outputs st)) \<longrightarrow>
      length (table_io (addOutput name io st)) = Suc (length (table_io st))
      \<and> butlast (table_io (addOutput name io st)) = table_io st
      \<and> row_name (last (table_io (addOutput name io st))) = name
      \<and> dict_outputs (addOutput name io st) = dict_outputs st @ [(name, io)])
   \<and> (name \<in> set (map fst (dict_outputs st)) \<longrightarrow>
      table_io (addOutput name io st) = table_io st
      \<and> map fst (dict_outputs (addOutput name io st)) = map fst (dict_outputs st)
      \<and> map_of (dict_outputs (addOutput name io st)) = (map_of (dict_outputs st))(name \<mapsto> io))
   \<and> (name \<notin> set (map fst (dict_top_inlets st)) \<longrightarrow>
      length (table_io (addTopInlet name tio st)) = Suc (length (table_io st))
      \<and> butlast (table_io (addTopInlet name tio st)) = table_io st
      \<and> row_name (last (table_io (addTopInlet name tio st))) = name
      \<and> dict_top_inlets (addTopInlet name tio st) = dict_top_inlets st @ [(name, tio)])
   \<and> (name \<in> set (map fst (dict_top_inlets st)) \<longrightarrow>
      table_io (addTopInlet name tio st) = table_io st
      \<and> map fst (dict_top_inlets (addTopInlet name tio st)) = map fst (dict_top_inlets st)
      \<and> map_of (dict_top_inlets (addTopInlet name tio st))
          = (map_of (dict_top_inlets st))(name \<mapsto> tio))"
  by (simp add: addInput_def addOutput_def addTopInlet_def addNewRow_def update_new_key
      update_known_key update_conv')

theorem addOrUpdate_semantics_witness:
  "''in1'' \<notin> set (map fst (dict_inputs example_ui))
   \<and> length (table_io (addInput ''in1'' example_input example_ui)) = 1
   \<and> dict_inputs (addInput ''in1'' example_input example_ui) = [(''in1'', example_input)]
   \<and> ''in1'' \<notin> set (map fst (dict_outputs example_ui))
   \<and> length (table_io (addOutput ''in1'' example_input example_ui)) = 1
   \<and> dict_outputs (addOutput ''in1'' example_input example_ui) = [(''in1'', example_input)]
   \<and> ''in1'' \<notin> set (map fst (dict_top_inlets example_ui))
   \<and> length (table_io (addTopInlet ''in1'' example_inlet example_ui)) = 1
   \<and> dict_top_inlets (addTopInlet ''in1'' example_inlet example_ui) = [(''in1'', example_inlet)]
   \<and> ''default'' \<in> set (map fst (dict_outputs example_edit))
   \<and> table_io (addOutput ''default'' example_output example_edit) = table_io example_edit
   \<and> map fst (dict_outputs (addOutput ''default'' example_output example_edit)) = [''default'']
   \<and> map_of (dict_outputs (addOutput ''default'' example_output example_edit)) ''default''
        = Some example_output"
  using addOrUpdate_semantics [of "''in1''" example_ui example_input example_inlet]
    addOrUpdate_semantics [of "''default''" example_edit example_output example_inlet]
  by (simp add: example_ui_def example_edit_def)

lemma apply_edit_cad_obj: "cad_obj (apply_edit ed st) = cad_obj st"
  by (cases ed) (simp_all add: addInput_def addOutput_def addTopInlet_def addNewRow_def Let_def)

lemma fold_apply_edit_cad_obj: "cad_obj (fold apply_edit eds st) = cad_obj st"
  by (induction eds arbitrary: st) (simp_all add: apply_edit_cad_obj)

text \<open>
  Claim C3, as amended. No sequence of additions and edits of I/O changes the live CAD
  object: it gets them at the commit. \<open>deleteIO\<close> changes no live object when there is
  none and none for the row of the default output; for the selected row of a side input,
  a side output or a top inlet whose name the dictionary and the live object hold, it
  deletes the name at once from the dictionary and from the matching collection of the
  live object, and changes nothing else of the object.
\<close>

theorem registry_and_live_object:
  "cad_obj (fold apply_edit eds st) = cad_obj st
   \<and> (cad_obj st = None \<longrightarrow> cad_obj (fst (deleteIO sel st)) = None)
   \<and> (i < length (table_io st) \<and> row_type (table_io st ! i) = DEF_OUTPUT \<longrightarrow>
        deleteIO (i # sel) st = (st, None))
   \<and> (i < length (table_io st) \<and> row_type (table_io st ! i) = SIDE_INPUT
        \<and> row_name (table_io st ! i) = name \<and> name \<in> set (map fst (dict_inputs st))
        \<and> cad_obj st = Some c \<and> name \<in> set (map fst (inputs c)) \<longrightarrow>
        deleteIO (i # sel) st
          = (removeRow i (st\<lparr>dict_inputs := AList.delete name (dict_inputs st),
                              cad_obj := Some (c\<lparr>inputs := AList.delete name (inputs c)\<rparr>)\<rparr>),
             None))
   \<and> (i < length (table_io st) \<and> row_type (table_io st ! i) = SIDE_OUTPUT
        \<and> row_name (table_io st ! i) = name \<and> name \<in> set (map fst (dict_outputs st))
        \<and> cad_obj st = Some c \<and> name \<in> set (map fst (outputs c)) \<longrightarrow>
        deleteIO (i # sel) st
          = (removeRow i (st\<lparr>dict_outputs := AList.delete name (dict_outputs st),
                              cad_obj := Some (c\<lparr>outputs := AList.delete name (outputs c)\<rparr>)\<rparr>),
             None))
   \<and> (i < length (table_io st) \<and> row_type (table_io st ! i) \<noteq> DEF_OUTPUT
        \<and> row_type (table_io st ! i) \<noteq> SIDE_INPUT \<and> row_type (table_io st ! i) \<noteq> SIDE_OUTPUT
        \<and> row_name (table_io st ! i) = name \<and> name \<in> set (map fst (dict_top_inlets st))
        \<and> cad_obj st = Some c \<and> name \<in> set (map fst (top_inlets c)) \<longrightarrow>
        deleteIO (i # sel) st
          = (removeRow i (st\<lparr>dict_top_inlets := AList.delete name (dict_top_inlets st),
                              cad_obj := Some (c\<lparr>top_inlets := AList.delete name (top_inlets c)\<rparr>)\<rparr>),
             None))"
proof (intro conjI impI; (elim conjE)?)
  show "cad_obj (fold apply_edit eds st) = cad_obj st"
    by (rule fold_apply_edit_cad_obj)
next
  assume "cad_obj st = None"
  then show "cad_obj (fst (deleteIO sel st)) = None"
    by (simp add: deleteIO_def removeRow_def Let_def split: list.splits)
next
  assume "i < length (table_io st)" "row_type (table_io st ! i) = DEF_OUTPUT"
  then show "deleteIO (i # sel) st = (st, None)"
    by (simp add: deleteIO_def)
next
  assume "i < length (table_io st)" "row_type (table_io st ! i) = SIDE_INPUT"
    "row_name (table_io st ! i) = name" "name \<in> set (map fst (dict_inputs st))"
    "cad_obj st = Some c" "name \<in> set (map fst (inputs c))"
  then show "deleteIO (i # sel) st
          = (removeRow i (st\<lparr>dict_inputs := AList.delete name (dict_inputs st),
                              cad_obj := Some (c\<lparr>inputs := AList.delete name (inputs c)\<rparr>)\<rparr>),
             None)"
    by (simp add: deleteIO_def DEF_OUTPUT_def SIDE_INPUT_def Let_def)
next
  assume "i < length (table_io st)" "row_type (table_io st ! i) = SIDE_OUTPUT"
    "row_name (table_io st ! i) = name" "name \<in> set (map fst (dict_outputs st))"
    "cad_obj st = Some c" "name \<in> set (map fst (outputs c))"
  then show "deleteIO (i # sel) st
          = (removeRow i (st\<lparr>dict_outputs := AList.delete name (dict_outputs st),
                              cad_obj := Some (c\<lparr>outputs := AList.delete name (outputs c)\<rparr>)\<rparr>),
             None)"
    by (simp add: deleteIO_def DEF_OUTPUT_def SIDE_INPUT_def SIDE_OUTPUT_def Let_def)
next
  assume "i < length (table_io st)" "row_type (table_io st ! i) \<noteq> DEF_OUTPUT"
    "row_type (table_io st ! i) \<noteq> SIDE_INPUT" "row_type (table_io st ! i) \<noteq> SIDE_OUTPUT"
    "row_name (table_io st ! i) = name" "name \<in> set (map fst (dict_top_inlets st))"
    "cad_obj st = Some c" "name \<in> set (map fst (top_inlets c))"
  then show "deleteIO (i # sel) st
          = (removeRow i (st\<lparr>dict_top_inlets := AList.delete name (dict_top_inlets st),
                              cad_obj := Some (c\<lparr>top_inlets := AList.delete name (top_inlets c)\<rparr>)\<rparr>),
             None)"
    by (simp add: deleteIO_def Let_def)
qed

theorem registry_and_live_object_witness:
  "cad_obj (fold apply_edit
              [AddInput ''in2'' example_input, AddOutput ''default'' example_output,
               AddTopInlet ''t1'' example_inlet] example_edit_ios)
     = Some example_live_ios
   \<and> cad_obj (fst (deleteIO [0] example_new)) = None
   \<and> deleteIO [1] example_edit_ios = (example_edit_ios, None)
   \<and> cad_obj (fst (deleteIO [0] example_edit_ios)) = Some (example_live_ios\<lparr>inputs := []\<rparr>)
   \<and> cad_obj (fst (deleteIO [2] example_edit_ios))
       = Some (example_live_ios\<lparr>outputs := [(''default'', example_io)]\<rparr>)
   \<and> cad_obj (fst (deleteIO [3] example_edit_ios)) = Some (example_live_ios\<lparr>top_inlets := []\<rparr>)"
proof -
  have c: "cad_obj example_edit_ios = Some example_live_ios" "cad_obj example_new = None"
    by (simp_all add: ex_defs)
  have t: "length (table_io example_edit_ios) = 4"
    "row_type (table_io example_edit_ios ! 0) = SIDE_INPUT"
    "row_name (table_io example_edit_ios ! 0) = ''in1''"
    "row_type (table_io example_edit_ios ! 1) = DEF_OUTPUT"
    "row_type (table_io example_edit_ios ! 2) = SIDE_OUTPUT"
    "row_name (table_io example_edit_ios ! 2) = ''out1''"
    "row_type (table_io example_edit_ios ! 3) \<noteq> DEF_OUTPUT"
    "row_type (table_io example_edit_ios ! 3) \<noteq> SIDE_INPUT"
    "row_type (table_io example_edit_ios ! 3) \<noteq> SIDE_OUTPUT"
    "row_name (table_io example_edit_ios ! 3) = ''t1''"
    by (simp_all add: ex_defs SIDE_INPUT_def SIDE_OUTPUT_def DEF_OUTPUT_def)
  have d: "''in1'' \<in> set (map fst (dict_inputs example_edit_ios))"
    "''out1'' \<in> set (map fst (dict_outputs example_edit_ios))"
    "''t1'' \<in> set (map fst (dict_top_inlets example_edit_ios))"
    "''in1'' \<in> set (map fst (inputs example_live_ios))"
    "''out1'' \<in> set (map fst (outputs example_live_ios))"
    "''t1'' \<in> set (map fst (top_inlets example_live_ios))"
    "AList.delete ''in1'' (inputs example_live_ios) = []"
    "AList.delete ''out1'' (outputs example_live_ios) = [(''default'', example_io)]"
    "AList.delete ''t1'' (top_inlets example_live_ios) = []"
    by (simp_all add: ex_defs)
  note a = registry_and_live_object
    [where eds = "[AddInput ''in2'' example_input, AddOutput ''default'' example_output,
               AddTopInlet ''t1'' example_inlet]" and st = example_edit_ios and i = 0
       and sel = "[]" and name = "''in1''" and c = example_live_ios]
  note b = registry_and_live_object
    [where st = example_edit_ios and i = 1 and sel = "[]"]
  note e = registry_and_live_object
    [where st = example_edit_ios and i = 2 and sel = "[]" and name = "''out1''"
       and c = example_live_ios]
  note f = registry_and_live_object
    [where st = example_edit_ios and i = 3 and sel = "[]" and name = "''t1''"
       and c = example_live_ios]
  note g = registry_and_live_object [where st = example_new and sel = "[0]"]
  show ?thesis
    using a b e f g c t d by (simp add: removeRow_def)
qed

text \<open>
  Claim C3 as stated fails: in the editor of an existing module with the side input
  \<open>in1\<close>, deleting the row of \<open>in1\<close> removes \<open>in1\<close> from the inputs of the live CAD
  object at once, while the dialog is still open and nothing is committed.
\<close>

theorem delete_changes_live_object:
  "cad_obj example_edit_ios = Some example_live_ios
   \<and> inputs example_live_ios = [(''in1'', example_io)]
   \<and> deleteIO [0] example_edit_ios
       = (removeRow 0 (example_edit_ios
            \<lparr>dict_inputs := [], cad_obj := Some (example_live_ios\<lparr>inputs := []\<rparr>)\<rparr>), None)
   \<and> cad_obj (fst (deleteIO [0] example_edit_ios)) = Some (example_live_ios\<lparr>inputs := []\<rparr>)
   \<and> cad_obj (fst (deleteIO [0] example_edit_ios)) \<noteq> cad_obj example_edit_ios
   \<and> dialog_closed (fst (deleteIO [0] example_edit_ios)) = False"
  by (simp add: ex_defs deleteIO_def removeRow_def SIDE_INPUT_def DEF_OUTPUT_def Let_def)

text \<open>
  \<open>deleteIO\<close> with no selected row does nothing. For the row of a side input that the
  dictionary holds and the live object does not (an input added in this dialog), it
  deletes the dictionary entry and raises, the row staying in the table; for the row of a
  side input that the dictionary does not hold, it raises and changes nothing.
\<close>

lemma deleteIO_nothing_selected: "deleteIO [] st = (st, None)"
  by (simp add: deleteIO_def)

lemma deleteIO_uncommitted_input:
  "i < length (table_io st) \<Longrightarrow> row_type (table_io st ! i) = SIDE_INPUT \<Longrightarrow>
   row_name (table_io st ! i) = name \<Longrightarrow> name \<in> set (map fst (dict_inputs st)) \<Longrightarrow>
   cad_obj st = Some c \<Longrightarrow> name \<notin> set (map fst (inputs c)) \<Longrightarrow>
     deleteIO (i # sel) st
       = (st\<lparr>dict_inputs := AList.delete name (dict_inputs st)\<rparr>, Some (KeyError name))"
  by (simp add: deleteIO_def DEF_OUTPUT_def SIDE_INPUT_def Let_def)

lemma deleteIO_unknown_input:
  "i < length (table_io st) \<Longrightarrow> row_type (table_io st ! i) = SIDE_INPUT \<Longrightarrow>
   row_name (table_io st ! i) = name \<Longrightarrow> name \<notin> set (map fst (dict_inputs st)) \<Longrightarrow>
     deleteIO (i # sel) st = (st, Some (KeyError name))"
  by (simp add: deleteIO_def DEF_OUTPUT_def SIDE_INPUT_def Let_def)

text \<open>
  Claim C5 fails on the code. In the editor of an existing module whose live object has
  no input, a side input \<open>in1\<close> is added and its row (row 1) is selected and deleted:
  \<open>deleteIO\<close> removes \<open>in1\<close> from \<open>dict_inputs\<close>, then \<open>del self.cad_obj.inputs[name]\<close>
  raises \<open>KeyError\<close> and the row stays in the table. Deleting the row again raises
  \<open>KeyError\<close> at \<open>del self.dict_inputs[name]\<close> and changes nothing: the row of \<open>in1\<close>
  cannot be deleted.
\<close>

theorem delete_added_io_raises:
  "cad_obj (addInput ''in1'' example_input example_edit) = Some example_live
   \<and> inputs example_live = []
   \<and> table_io (addInput ''in1'' example_input example_edit) ! 1
       = \<lparr>row_name = ''in1'', row_type = ''Side input'', row_connected = ''Not connected'',
          row_selectable = True\<rparr>
   \<and> deleteIO [1] (addInput ''in1'' example_input example_edit)
       = ((addInput ''in1'' example_input example_edit)\<lparr>dict_inputs := []\<rparr>,
          Some (KeyError ''in1''))
   \<and> table_io ((addInput ''in1'' example_input example_edit)\<lparr>dict_inputs := []\<rparr>)
       = table_io (addInput ''in1'' example_input example_edit)
   \<and> deleteIO [1] ((addInput ''in1'' example_input example_edit)\<lparr>dict_inputs := []\<rparr>)
       = ((addInput ''in1'' example_input example_edit)\<lparr>dict_inputs := []\<rparr>,
          Some (KeyError ''in1''))"
  by (simp add: ex_defs deleteIO_def removeRow_def SIDE_INPUT_def DEF_OUTPUT_def Let_def)

subsection \<open>The radius and its constraint\<close>

text \<open>
  At a threaded top \<open>topTypeChanged\<close> checks the box and disables the box and the
  radius, whatever the state before; the box is checked first, since checking it after
  would enable the radius again. Whenever a threaded top is picked and then one that is
  not, the box is left checked and enabled and the radius disabled.
\<close>

lemma topTypeChanged_threaded:
  "combo_top st \<in> set (THREADED_TOPS col) \<Longrightarrow>
     check_r_constrained (topTypeChanged col st) = Checked
     \<and> \<not> check_r_constrained_enabled (topTypeChanged col st)
     \<and> \<not> spin_r_enabled (topTypeChanged col st)"
  by (simp add: topTypeChanged_def setCheckState_def rConstraintChanged_def)

lemma check_after_disable_enables:
  "check_r_constrained st = Unchecked \<Longrightarrow>
     spin_r_enabled (setCheckState Checked (st\<lparr>spin_r_enabled := False\<rparr>))"
  by (simp add: setCheckState_def rConstraintChanged_def)

lemma radius_stays_disabled:
  "t1 \<in> set (THREADED_TOPS col) \<Longrightarrow> t2 \<notin> set (THREADED_TOPS col) \<Longrightarrow> combo_top st \<noteq> t1 \<Longrightarrow>
     combo_top (choose_top col t2 (choose_top col t1 st)) = t2
     \<and> check_r_constrained (choose_top col t2 (choose_top col t1 st)) = Checked
     \<and> check_r_constrained_enabled (choose_top col t2 (choose_top col t1 st))
     \<and> \<not> spin_r_enabled (choose_top col t2 (choose_top col t1 st))"
  by (auto simp add: choose_top_def topTypeChanged_def setCheckState_def rConstraintChanged_def)

text \<open>
  Claim C8 fails on the code. In a new editor (top not threaded, box unchecked, radius
  disabled) the user picks the threaded top: the box is checked and disabled and the
  radius is disabled, as claimed. The user then picks the first top again:
  \<open>topTypeChanged\<close> enables the box and leaves the radius disabled, so the box is
  checked, the top is not threaded, and the radius cannot be edited.
\<close>

theorem radius_disabled_after_threaded_top:
  "THREADED_TOPS example_collab = [''Threaded'']
   \<and> check_r_constrained
        (choose_top example_collab ''Threaded'' example_ui) = Checked
   \<and> check_r_constrained_enabled
        (choose_top example_collab ''Threaded'' example_ui) = False
   \<and> spin_r_enabled
        (choose_top example_collab ''Threaded'' example_ui) = False
   \<and> combo_top (choose_top example_collab ''Closed''
        (choose_top example_collab ''Threaded'' example_ui)) = ''Closed''
   \<and> check_r_constrained (choose_top example_collab ''Closed''
        (choose_top example_collab ''Threaded'' example_ui)) = Checked
   \<and> check_r_constrained_enabled (choose_top example_collab ''Closed''
        (choose_top example_collab ''Threaded'' example_ui)) = True
   \<and> spin_r_enabled (choose_top example_collab ''Closed''
        (choose_top example_collab ''Threaded'' example_ui)) = False"
  by (simp add: ex_defs choose_top_def topTypeChanged_def setCheckState_def
      rConstraintChanged_def)

subsection \<open>The commit\<close>

text \<open>
  Claim C10. An editor built without a parent is in test mode (\<open>__init__\<close> sets \<open>test\<close>
  exactly when \<open>parent\<close> is \<open>None\<close>), no slot changes the flag, and in test mode the OK
  button only reads the form and closes the dialog: no CAD object is built or changed, no
  call is made on the parent window and no message is shown, whatever the collaborators
  would do.
\<close>

theorem test_mode_commit:
  "test (ChemModule_init None ui)
   \<and> test (addInput name io st) = test st
   \<and> test (addOutput name io st) = test st
   \<and> test (addTopInlet name tio st) = test st
   \<and> test (fst (deleteIO sel st)) = test st
   \<and> test (choose_top col t st) = test st
   \<and> (test st \<longrightarrow>
        buildModule col st = (close (readForm st), None)
        \<and> cad_obj (fst (buildModule col st)) = cad_obj st
        \<and> parent (fst (buildModule col st)) = parent st
        \<and> messages (fst (buildModule col st)) = messages st)"
  by (auto simp add: ChemModule_init_def addInput_def addOutput_def addTopInlet_def addNewRow_def
      deleteIO_def removeRow_def choose_top_def topTypeChanged_def setCheckState_def
      rConstraintChanged_def buildModule_def readForm_def close_def Let_def
      split: list.splits option.splits check_state.splits)

theorem test_mode_commit_witness:
  "test (ChemModule_init None example_ui)
   \<and> buildModule example_collab (ChemModule_init None example_ui)
       = (close (readForm (ChemModule_init None example_ui)), None)
   \<and> cad_obj (fst (buildModule example_collab
                      (ChemModule_init None example_ui))) = None
   \<and> parent (fst (buildModule example_collab
                     (ChemModule_init None example_ui))) = None
   \<and> messages (fst (buildModule example_collab
                       (ChemModule_init None example_ui))) = []"
  using test_mode_commit [of example_ui "''in1''" example_input "ChemModule_init None example_ui"
      example_inlet "[]" example_collab "''Closed''"]
  by (simp add: ChemModule_init_def close_def readForm_def)

text \<open>
  Claim C1. When the validation build of \<open>_updateModule\<close> raises (the constructor, or the
  assignment of the radius to the temporary object), the update returns \<open>False\<close> at once:
  the editor is as before but for the message box "Update error", and so is the live CAD
  object, with all its fields and I/O. The same holds for the whole commit of the OK
  button, which then closes the dialog; the parent window is not called.
\<close>

theorem update_validation_failure_atomic:
  "(buildCADObject col st = Inl e \<longrightarrow>
      updateModule col st
        = (critical ''Update error'' (''Impossible to update reactor: '' @ str e) st, Inr False)
      \<and> cad_obj (fst (updateModule col st)) = cad_obj st)
   \<and> (\<not> test st \<and> cad_obj st = Some c \<and> buildCADObject col (readForm st) = Inl e \<longrightarrow>
      buildModule col st
        = (close (critical ''Update error'' (''Impossible to update reactor: '' @ str e)
                    (readForm st)), None)
      \<and> cad_obj (fst (buildModule col st)) = Some c
      \<and> parent (fst (buildModule col st)) = parent st
      \<and> messages (fst (buildModule col st))
          = messages st @ [Critical ''Update error'' (''Impossible to update reactor: '' @ str e)])"
  by (simp add: updateModule_def buildModule_def critical_def close_def readForm_def Let_def)

theorem update_validation_failure_atomic_witness:
  "buildCADObject example_collab (readForm (example_edit\<lparr>spin_d_filter := 150\<rparr>))
     = Inl (OtherException ''filter too large'')
   \<and> \<not> test (example_edit\<lparr>spin_d_filter := 150\<rparr>)
   \<and> cad_obj (example_edit\<lparr>spin_d_filter := 150\<rparr>) = Some example_live
   \<and> cad_obj (fst (updateModule example_collab
                      (readForm (example_edit\<lparr>spin_d_filter := 150\<rparr>)))) = Some example_live
   \<and> cad_obj (fst (buildModule example_collab
                      (example_edit\<lparr>spin_d_filter := 150\<rparr>))) = Some example_live
   \<and> parent (fst (buildModule example_collab
                      (example_edit\<lparr>spin_d_filter := 150\<rparr>))) = Some []
   \<and> messages (fst (buildModule example_collab
                      (example_edit\<lparr>spin_d_filter := 150\<rparr>)))
        = [Critical ''Update error'' ''Impossible to update reactor: filter too large'']"
proof -
  have b: "buildCADObject example_collab
             (readForm (example_edit\<lparr>spin_d_filter := 150\<rparr>))
           = Inl (OtherException ''filter too large'')"
    by (simp add: ex_defs)
  have t: "\<not> test (example_edit\<lparr>spin_d_filter := 150\<rparr>)"
    and c: "cad_obj (example_edit\<lparr>spin_d_filter := 150\<rparr>) = Some example_live"
    and c': "cad_obj (readForm (example_edit\<lparr>spin_d_filter := 150\<rparr>)) = Some example_live"
    by (simp_all add: example_edit_def example_ui_def readForm_def)
  show ?thesis
    using update_validation_failure_atomic
      [of example_collab "example_edit\<lparr>spin_d_filter := 150\<rparr>"
          "OtherException ''filter too large''" example_live]
      update_validation_failure_atomic
      [of example_collab "readForm (example_edit\<lparr>spin_d_filter := 150\<rparr>)"
          "OtherException ''filter too large''" example_live]
      b t c c'
    by (simp add: close_def critical_def readForm_def example_edit_def example_ui_def)
qed

text \<open>
  Claim C7, as amended. \<open>_buildNewModule\<close>: when the construction raises, "Creation
  error" is shown and nothing is handed to the parent window. After a construction, the
  calls made on the new object are, in this order: one attachment for each entry of
  \<open>dict_inputs\<close>, one for each entry of \<open>dict_outputs\<close> whose name is not \<open>default\<close>,
  one for each entry of \<open>dict_top_inlets\<close>, each in the order of its dictionary, and
  the placement of the top inlets. An exception of an input or output attachment, an exception other than
  \<open>IncompatibilityError\<close> of a top inlet attachment and an exception other than
  \<open>ConstraintError\<close> of the placement show "I/Os error", and nothing is handed to the
  parent window. In every other case \<open>parent.buildModule\<close> is called once, with the
  object as the calls left it: when all calls succeed, when a top inlet attachment
  raised \<open>IncompatibilityError\<close> (no message), and when the placement raised
  \<open>ConstraintError\<close> (after the message "Auto-placement error").
\<close>

theorem create_path:
  "input_calls col st
     = map (\<lambda>kv. addInputPercentage col (fst kv) (io_height_per (snd kv)) (io_angle (snd kv))
                   (io_diameter (snd kv)) (io_external (snd kv)))
           (dict_inputs st)
   \<and> output_calls col st
     = map (\<lambda>kv. addOutputPercentage col (fst kv) (io_height_per (snd kv)) (io_angle (snd kv))
                   (io_diameter (snd kv)) (io_external (snd kv)))
           (filter (\<lambda>kv. fst kv \<noteq> ''default'') (dict_outputs st))
   \<and> top_inlet_calls col st
     = map (\<lambda>kv. addCustomTopInlet col (fst kv) (top_diameter (snd kv)) (top_length (snd kv))
                   (top_walls (snd kv)) (top_type_io (snd kv)))
           (dict_top_inlets st)
   \<and> (buildCADObject col st = Inl e \<longrightarrow>
      buildNewModule col st
        = (critical ''Creation error'' (''Impossible to create filter reactor: '' @ str e) st,
           Inr False))
   \<and> (buildCADObject col st = Inr reactor
        \<and> run_steps (input_calls col st @ output_calls col st) reactor = (c1, Some e) \<longrightarrow>
      buildNewModule col st
        = (critical ''I/Os error'' (''Impossible to create I/Os: '' @ str e) st, Inr False))
   \<and> (buildCADObject col st = Inr reactor
        \<and> run_steps (input_calls col st @ output_calls col st) reactor = (c1, None)
        \<and> run_steps (top_inlet_calls col st) c1 = (c2, Some e)
        \<and> \<not> isIncompatibilityError e \<longrightarrow>
      buildNewModule col st
        = (critical ''I/Os error'' (''Impossible to create I/Os: '' @ str e) st, Inr False))
   \<and> (buildCADObject col st = Inr reactor
        \<and> run_steps (input_calls col st @ output_calls col st) reactor = (c1, None)
        \<and> run_steps (top_inlet_calls col st) c1 = (c2, None)
        \<and> autoPlaceTopInlets col c2 = (c3, Some e)
        \<and> \<not> isConstraintError e \<longrightarrow>
      buildNewModule col st
        = (critical ''I/Os error'' (''Impossible to create I/Os: '' @ str e) st, Inr False))
   \<and> (buildCADObject col st = Inr reactor
        \<and> run_steps (input_calls col st @ output_calls col st) reactor = (c1, None)
        \<and> run_steps (top_inlet_calls col st) c1 = (c2, Some e)
        \<and> isIncompatibilityError e
        \<and> parent st = Some calls \<longrightarrow>
      buildNewModule col st = (st\<lparr>parent := Some (calls @ [BuildModule c2])\<rparr>, Inr True))
   \<and> (buildCADObject col st = Inr reactor
        \<and> run_steps (input_calls col st @ output_calls col st) reactor = (c1, None)
        \<and> run_steps (top_inlet_calls col st) c1 = (c2, None)
        \<and> autoPlaceTopInlets col c2 = (c3, Some e)
        \<and> isConstraintError e
        \<and> parent st = Some calls \<longrightarrow>
      buildNewModule col st
        = ((critical ''Auto-placement error''
              ''Impossible to auto-place the top inlets. Collision ?'' st)
             \<lparr>parent := Some (calls @ [BuildModule c3])\<rparr>, Inr True))
   \<and> (buildCADObject col st = Inr reactor
        \<and> run_steps (input_calls col st @ output_calls col st @ top_inlet_calls col st
                        @ [autoPlaceTopInlets col]) reactor = (c3, None)
        \<and> parent st = Some calls \<longrightarrow>
      buildNewModule col st = (st\<lparr>parent := Some (calls @ [BuildModule c3])\<rparr>, Inr True))"
proof (intro conjI impI; (elim conjE)?)
  show "input_calls col st
     = map (\<lambda>kv. addInputPercentage col (fst kv) (io_height_per (snd kv)) (io_angle (snd kv))
                   (io_diameter (snd kv)) (io_external (snd kv)))
           (dict_inputs st)"
    by (simp add: input_calls_def case_prod_unfold)
next
  show "output_calls col st
     = map (\<lambda>kv. addOutputPercentage col (fst kv) (io_height_per (snd kv)) (io_angle (snd kv))
                   (io_diameter (snd kv)) (io_external (snd kv)))
           (filter (\<lambda>kv. fst kv \<noteq> ''default'') (dict_outputs st))"
    by (simp add: output_calls_def case_prod_unfold)
next
  show "top_inlet_calls col st
     = map (\<lambda>kv. addCustomTopInlet col (fst kv) (top_diameter (snd kv)) (top_length (snd kv))
                   (top_walls (snd kv)) (top_type_io (snd kv)))
           (dict_top_inlets st)"
    by (simp add: top_inlet_calls_def case_prod_unfold)
next
  show "buildNewModule col st
        = (critical ''Creation error'' (''Impossible to create filter reactor: '' @ str e) st,
           Inr False)"
    if "buildCADObject col st = Inl e"
    using that by (rule new_construct_fails)
next
  assume "buildCADObject col st = Inr reactor"
    and "run_steps (input_calls col st @ output_calls col st) reactor = (c1, Some e)"
  then show "buildNewModule col st
        = (critical ''I/Os error'' (''Impossible to create I/Os: '' @ str e) st, Inr False)"
    by (simp add: new_ios_raise buildIOs_attach_raises)
next
  assume "buildCADObject col st = Inr reactor"
    and "run_steps (input_calls col st @ output_calls col st) reactor = (c1, None)"
    and "run_steps (top_inlet_calls col st) c1 = (c2, Some e)"
    and "\<not> isIncompatibilityError e"
  then show "buildNewModule col st
        = (critical ''I/Os error'' (''Impossible to create I/Os: '' @ str e) st, Inr False)"
    by (simp add: new_ios_raise [where ?c1.0 = c2] buildIOs_attached buildTopInlets_cases(1))
next
  assume "buildCADObject col st = Inr reactor"
    and "run_steps (input_calls col st @ output_calls col st) reactor = (c1, None)"
    and "run_steps (top_inlet_calls col st) c1 = (c2, None)"
    and "autoPlaceTopInlets col c2 = (c3, Some e)"
    and "\<not> isConstraintError e"
  then show "buildNewModule col st
        = (critical ''I/Os error'' (''Impossible to create I/Os: '' @ str e) st, Inr False)"
    by (simp add: new_ios_raise [where ?c1.0 = c3] buildIOs_attached
        buildTopInlets_cases(2) [where ?c2.0 = c3])
next
  assume "buildCADObject col st = Inr reactor"
    and "run_steps (input_calls col st @ output_calls col st) reactor = (c1, None)"
    and "run_steps (top_inlet_calls col st) c1 = (c2, Some e)"
    and "isIncompatibilityError e"
    and "parent st = Some calls"
  then show "buildNewModule col st = (st\<lparr>parent := Some (calls @ [BuildModule c2])\<rparr>, Inr True)"
    by (simp add: new_ios_return [where ?c1.0 = c2 and ?st1.0 = st] buildIOs_attached
        buildTopInlets_cases(1))
next
  assume "buildCADObject col st = Inr reactor"
    and "run_steps (input_calls col st @ output_calls col st) reactor = (c1, None)"
    and "run_steps (top_inlet_calls col st) c1 = (c2, None)"
    and "autoPlaceTopInlets col c2 = (c3, Some e)"
    and "isConstraintError e"
    and "parent st = Some calls"
  then show "buildNewModule col st
        = ((critical ''Auto-placement error''
              ''Impossible to auto-place the top inlets. Collision ?'' st)
             \<lparr>parent := Some (calls @ [BuildModule c3])\<rparr>, Inr True)"
    by (simp add: new_ios_return [where ?c1.0 = c3 and
          ?st1.0 = "critical ''Auto-placement error''
              ''Impossible to auto-place the top inlets. Collision ?'' st"]
        buildIOs_attached buildTopInlets_cases(2) [where ?c2.0 = c3])
next
  assume "buildCADObject col st = Inr reactor"
    and "run_steps (input_calls col st @ output_calls col st @ top_inlet_calls col st
                        @ [autoPlaceTopInlets col]) reactor = (c3, None)"
    and "parent st = Some calls"
  then show "buildNewModule col st = (st\<lparr>parent := Some (calls @ [BuildModule c3])\<rparr>, Inr True)"
    by (simp add: new_ios_return [where ?c1.0 = c3 and ?st1.0 = st] run_steps_all)
qed

theorem create_path_witness:
  "buildCADObject example_collab (readForm (example_new\<lparr>spin_d_filter := 150\<rparr>))
     = Inl (OtherException ''filter too large'')
   \<and> buildNewModule example_collab (readForm (example_new\<lparr>spin_d_filter := 150\<rparr>))
     = (critical ''Creation error'' ''Impossible to create filter reactor: filter too large''
          (readForm (example_new\<lparr>spin_d_filter := 150\<rparr>)), Inr False)
   \<and> run_steps (input_calls example_collab
                   (readForm (addInput ''clash'' example_input example_new))
                 @ output_calls example_collab
                   (readForm (addInput ''clash'' example_input example_new)))
        (example_reactor 20 ''Closed'')
     = ((example_reactor 20 ''Closed'')\<lparr>inputs := [example_in1]\<rparr>, Some (ConstraintError ''clash''))
   \<and> buildNewModule example_collab
        (readForm (addInput ''clash'' example_input example_new))
     = (critical ''I/Os error'' ''Impossible to create I/Os: clash''
          (readForm (addInput ''clash'' example_input example_new)), Inr False)
   \<and> run_steps (top_inlet_calls example_collab
                   (readForm (addTopInlet ''clash'' example_inlet example_new)))
        ((example_reactor 20 ''Closed'')\<lparr>inputs := [example_in1]\<rparr>)
     = ((example_reactor 20 ''Closed'')\<lparr>inputs := [example_in1]\<rparr>, Some (ConstraintError ''clash''))
   \<and> buildNewModule example_collab
        (readForm (addTopInlet ''clash'' example_inlet example_new))
     = (critical ''I/Os error'' ''Impossible to create I/Os: clash''
          (readForm (addTopInlet ''clash'' example_inlet example_new)), Inr False)
   \<and> autoPlaceTopInlets example_collab
        ((example_reactor 0 ''Closed'')\<lparr>inputs := [example_in1]\<rparr>)
     = ((example_reactor 0 ''Closed'')\<lparr>inputs := [example_in1]\<rparr>, Some (OtherException ''no volume''))
   \<and> buildNewModule example_collab (readForm (example_new\<lparr>spin_vol := 0\<rparr>))
     = (critical ''I/Os error'' ''Impossible to create I/Os: no volume''
          (readForm (example_new\<lparr>spin_vol := 0\<rparr>)), Inr False)
   \<and> run_steps (top_inlet_calls example_collab
                   (readForm (addTopInlet ''t1'' example_inlet (example_new\<lparr>combo_top := ''Open''\<rparr>))))
        ((example_reactor 20 ''Open'')\<lparr>inputs := [example_in1]\<rparr>)
     = ((example_reactor 20 ''Open'')\<lparr>inputs := [example_in1]\<rparr>,
        Some (IncompatibilityError ''no custom top''))
   \<and> buildNewModule example_collab
         (readForm (addTopInlet ''t1'' example_inlet (example_new\<lparr>combo_top := ''Open''\<rparr>)))
     = ((readForm (addTopInlet ''t1'' example_inlet (example_new\<lparr>combo_top := ''Open''\<rparr>)))
          \<lparr>parent := Some [BuildModule ((example_reactor 20 ''Open'')\<lparr>inputs := [example_in1]\<rparr>)]\<rparr>,
        Inr True)
   \<and> autoPlaceTopInlets example_collab
        ((example_reactor 20 ''Closed'')
           \<lparr>inputs := [example_in1],
            top_inlets := [example_top ''t1'', example_top ''t2'', example_top ''t3'']\<rparr>)
     = ((example_reactor 20 ''Closed'')
           \<lparr>inputs := [example_in1],
            top_inlets := [example_top ''t1'', example_top ''t2'', example_top ''t3'']\<rparr>,
        Some (ConstraintError ''collision''))
   \<and> buildNewModule example_collab
        (readForm (addTopInlet ''t3'' example_inlet (addTopInlet ''t2'' example_inlet
           (addTopInlet ''t1'' example_inlet example_new))))
     = ((critical ''Auto-placement error'' ''Impossible to auto-place the top inlets. Collision ?''
          (readForm (addTopInlet ''t3'' example_inlet (addTopInlet ''t2'' example_inlet
             (addTopInlet ''t1'' example_inlet example_new)))))
          \<lparr>parent := Some [BuildModule ((example_reactor 20 ''Closed'')
             \<lparr>inputs := [example_in1],
              top_inlets := [example_top ''t1'', example_top ''t2'', example_top ''t3'']\<rparr>)]\<rparr>,
        Inr True)
   \<and> buildNewModule example_collab (readForm example_new)
     = ((readForm example_new)
          \<lparr>parent := Some [BuildModule ((example_reactor 20 ''Closed'')\<lparr>inputs := [example_in1]\<rparr>)]\<rparr>,
        Inr True)
   \<and> dict_outputs (readForm example_new_outputs)
     = [(''default'', example_output), (''out1'', example_output)]
   \<and> output_calls example_collab (readForm example_new_outputs)
     = [addOutputPercentage example_collab ''out1'' (1 / 4) 90 2 False]
   \<and> buildNewModule example_collab (readForm example_new_outputs)
     = ((readForm example_new_outputs)
          \<lparr>parent := Some [BuildModule ((example_reactor 20 ''Closed'')
             \<lparr>inputs := [example_in1],
              outputs := [(''default'', example_io), example_out1]\<rparr>)]\<rparr>,
        Inr True)"
proof -
  let ?col = example_collab
  let ?r = "example_reactor 20 ''Closed''"
  let ?ri = "(example_reactor 20 ''Closed'')\<lparr>inputs := [example_in1]\<rparr>"
  let ?s1 = "readForm (example_new\<lparr>spin_d_filter := 150\<rparr>)"
  let ?s2 = "readForm (addInput ''clash'' example_input example_new)"
  let ?s3 = "readForm (addTopInlet ''clash'' example_inlet example_new)"
  let ?s4 = "readForm (example_new\<lparr>spin_vol := 0\<rparr>)"
  let ?s5 = "readForm (addTopInlet ''t1'' example_inlet (example_new\<lparr>combo_top := ''Open''\<rparr>))"
  let ?s6 = "readForm (addTopInlet ''t3'' example_inlet (addTopInlet ''t2'' example_inlet
           (addTopInlet ''t1'' example_inlet example_new)))"
  let ?s7 = "readForm example_new"
  let ?r6 = "(example_reactor 20 ''Closed'')
           \<lparr>inputs := [example_in1],
            top_inlets := [example_top ''t1'', example_top ''t2'', example_top ''t3'']\<rparr>"
  have h1: "buildCADObject ?col ?s1 = Inl (OtherException ''filter too large'')"
    by (simp add: ex_defs)
  have h2: "buildCADObject ?col ?s2 = Inr ?r"
    "run_steps (input_calls ?col ?s2 @ output_calls ?col ?s2) ?r
       = (?ri, Some (ConstraintError ''clash''))"
    by (simp_all add: ex_defs)
  have h3: "buildCADObject ?col ?s3 = Inr ?r"
    "run_steps (input_calls ?col ?s3 @ output_calls ?col ?s3) ?r = (?ri, None)"
    "run_steps (top_inlet_calls ?col ?s3) ?ri = (?ri, Some (ConstraintError ''clash''))"
    "\<not> isIncompatibilityError (ConstraintError ''clash'')"
    by (simp_all add: ex_defs)
  have h4: "buildCADObject ?col ?s4 = Inr (example_reactor 0 ''Closed'')"
    "run_steps (input_calls ?col ?s4 @ output_calls ?col ?s4) (example_reactor 0 ''Closed'')
       = ((example_reactor 0 ''Closed'')\<lparr>inputs := [example_in1]\<rparr>, None)"
    "run_steps (top_inlet_calls ?col ?s4) ((example_reactor 0 ''Closed'')\<lparr>inputs := [example_in1]\<rparr>)
       = ((example_reactor 0 ''Closed'')\<lparr>inputs := [example_in1]\<rparr>, None)"
    "autoPlaceTopInlets ?col ((example_reactor 0 ''Closed'')\<lparr>inputs := [example_in1]\<rparr>)
       = ((example_reactor 0 ''Closed'')\<lparr>inputs := [example_in1]\<rparr>,
          Some (OtherException ''no volume''))"
    "\<not> isConstraintError (OtherException ''no volume'')"
    by (simp_all add: ex_defs)
  have h5: "buildCADObject ?col ?s5 = Inr (example_reactor 20 ''Open'')"
    "run_steps (input_calls ?col ?s5 @ output_calls ?col ?s5) (example_reactor 20 ''Open'')
       = ((example_reactor 20 ''Open'')\<lparr>inputs := [example_in1]\<rparr>, None)"
    "run_steps (top_inlet_calls ?col ?s5) ((example_reactor 20 ''Open'')\<lparr>inputs := [example_in1]\<rparr>)
       = ((example_reactor 20 ''Open'')\<lparr>inputs := [example_in1]\<rparr>,
          Some (IncompatibilityError ''no custom top''))"
    "isIncompatibilityError (IncompatibilityError ''no custom top'')"
    "parent ?s5 = Some []"
    by (simp_all add: ex_defs)
  have h6: "buildCADObject ?col ?s6 = Inr ?r"
    "run_steps (input_calls ?col ?s6 @ output_calls ?col ?s6) ?r = (?ri, None)"
    "run_steps (top_inlet_calls ?col ?s6) ?ri = (?r6, None)"
    "autoPlaceTopInlets ?col ?r6 = (?r6, Some (ConstraintError ''collision''))"
    "isConstraintError (ConstraintError ''collision'')"
    "parent ?s6 = Some []"
    by (simp_all add: ex_defs)
  have h7: "buildCADObject ?col ?s7 = Inr ?r"
    "run_steps (input_calls ?col ?s7 @ output_calls ?col ?s7 @ top_inlet_calls ?col ?s7
                  @ [autoPlaceTopInlets ?col]) ?r = (?ri, None)"
    "parent ?s7 = Some []"
    by (simp_all add: ex_defs)
  note c1 = create_path [of ?col ?s1 "OtherException ''filter too large''"]
  note c2 = create_path [of ?col ?s2 "ConstraintError ''clash''" ?r ?ri]
  note c3 = create_path [of ?col ?s3 "ConstraintError ''clash''" ?r ?ri ?ri]
  note c4 = create_path [of ?col ?s4 "OtherException ''no volume''" "example_reactor 0 ''Closed''"
      "(example_reactor 0 ''Closed'')\<lparr>inputs := [example_in1]\<rparr>"
      "(example_reactor 0 ''Closed'')\<lparr>inputs := [example_in1]\<rparr>"
      "(example_reactor 0 ''Closed'')\<lparr>inputs := [example_in1]\<rparr>"]
  note c5 = create_path [of ?col ?s5 "IncompatibilityError ''no custom top''"
      "example_reactor 20 ''Open''" "(example_reactor 20 ''Open'')\<lparr>inputs := [example_in1]\<rparr>"
      "(example_reactor 20 ''Open'')\<lparr>inputs := [example_in1]\<rparr>" _ "[]"]
  note c6 = create_path [of ?col ?s6 "ConstraintError ''collision''" ?r ?ri ?r6 ?r6 "[]"]
  note c7 = create_path [of ?col ?s7 _ ?r _ _ ?ri "[]"]
  let ?s8 = "readForm example_new_outputs"
  let ?r8 = "(example_reactor 20 ''Closed'')
             \<lparr>inputs := [example_in1],
              outputs := [(''default'', example_io), example_out1]\<rparr>"
  have h8: "buildCADObject ?col ?s8 = Inr ?r"
    "run_steps (input_calls ?col ?s8 @ output_calls ?col ?s8 @ top_inlet_calls ?col ?s8
                  @ [autoPlaceTopInlets ?col]) ?r = (?r8, None)"
    "parent ?s8 = Some []"
    "dict_outputs ?s8 = [(''default'', example_output), (''out1'', example_output)]"
    by (simp_all add: ex_defs)
  have o8: "map (\<lambda>kv. addOutputPercentage ?col (fst kv) (io_height_per (snd kv))
                        (io_angle (snd kv)) (io_diameter (snd kv)) (io_external (snd kv)))
                (filter (\<lambda>kv. fst kv \<noteq> ''default'') (dict_outputs ?s8))
             = [addOutputPercentage ?col ''out1'' (1 / 4) 90 2 False]"
    by (simp add: h8(4) example_output_def)
  note c8 = create_path [of ?col ?s8 _ ?r _ _ ?r8 "[]"]
  have e8: "output_calls ?col ?s8 = [addOutputPercentage ?col ''out1'' (1 / 4) 90 2 False]"
    using c8 o8 by simp
  have b8: "buildNewModule ?col ?s8 = (?s8\<lparr>parent := Some [BuildModule ?r8]\<rparr>, Inr True)"
    using c8 h8 by simp
  show ?thesis
    using c1 h1 c2 h2 c3 h3 c4 h4 c5 h5 c6 h6 c7 h7 h8(4) e8 b8 by simp
qed

text \<open>
  Claim C7 as stated fails: with a top that takes no custom inlet, the attachment of the
  registered top inlet raises, and yet the new object is handed to the parent window and
  no I/O error is shown.
\<close>

theorem create_hands_over_after_failed_inlet:
  "run_steps (top_inlet_calls example_collab
                (readForm (addTopInlet ''t1'' example_inlet (example_new\<lparr>combo_top := ''Open''\<rparr>))))
       ((example_reactor 20 ''Open'')\<lparr>inputs := [example_in1]\<rparr>)
     = ((example_reactor 20 ''Open'')\<lparr>inputs := [example_in1]\<rparr>,
        Some (IncompatibilityError ''no custom top''))
   \<and> buildNewModule example_collab
         (readForm (addTopInlet ''t1'' example_inlet (example_new\<lparr>combo_top := ''Open''\<rparr>)))
     = ((readForm (addTopInlet ''t1'' example_inlet (example_new\<lparr>combo_top := ''Open''\<rparr>)))
          \<lparr>parent := Some [BuildModule ((example_reactor 20 ''Open'')\<lparr>inputs := [example_in1]\<rparr>)]\<rparr>,
        Inr True)
   \<and> messages (fst (buildNewModule example_collab
         (readForm (addTopInlet ''t1'' example_inlet (example_new\<lparr>combo_top := ''Open''\<rparr>))))) = []"
  by (simp add: ex_defs buildNewModule_def buildIOs_def buildInputs_def buildOutputs_def
      buildTopInlets_def)

text \<open>
  Claim C6. \<open>_updateModule\<close> after a successful validation build, once the assignments to
  the live object are done (\<open>c1\<close>): when the I/O pass on it raises, "I/Os error" is shown
  and the live object stays as the pass left it (\<open>c2\<close>: the assignments and the I/O
  attached before the failure are kept, nothing is restored) and the parent window is not
  called; when the I/O pass returns and \<open>parent.refresh\<close> raises, "Refresh error" is shown
  and the live object stays as updated.
\<close>

theorem update_partial_failure:
  "(buildCADObject col st = Inr tmp \<and> params st = Some p \<and> cad_obj st = Some c
      \<and> run_steps (update_steps col p) c = (c1, None)
      \<and> buildIOs col st c1 = (st1, c2, Some e) \<longrightarrow>
      updateModule col st
        = (critical ''I/Os error'' (''Impossible to create I/Os: '' @ str e)
             (st\<lparr>cad_obj := Some c2\<rparr>), Inr False)
      \<and> cad_obj (fst (updateModule col st)) = Some c2
      \<and> parent (fst (updateModule col st)) = parent st)
   \<and> (buildCADObject col st = Inr tmp \<and> params st = Some p \<and> cad_obj st = Some c
      \<and> run_steps (update_steps col p) c = (c1, None)
      \<and> buildIOs col st c1 = (st1, c2, None)
      \<and> parent st = Some calls \<and> parent_refresh col c2 = Some e \<longrightarrow>
      updateModule col st
        = (critical ''Refresh error'' (''Impossible to refresh filter reactor: '' @ str e)
             (st1\<lparr>cad_obj := Some c2, parent := Some (calls @ [Refresh])\<rparr>), Inr False)
      \<and> cad_obj (fst (updateModule col st)) = Some c2)"
proof (intro conjI impI; (elim conjE)?)
  assume h: "buildCADObject col st = Inr tmp" "params st = Some p" "cad_obj st = Some c"
    "run_steps (update_steps col p) c = (c1, None)" "buildIOs col st c1 = (st1, c2, Some e)"
  note u = upd_ios_raise [OF h]
  show "updateModule col st
        = (critical ''I/Os error'' (''Impossible to create I/Os: '' @ str e)
             (st\<lparr>cad_obj := Some c2\<rparr>), Inr False)"
    by (rule u)
  show "cad_obj (fst (updateModule col st)) = Some c2"
    by (simp add: u critical_def)
  show "parent (fst (updateModule col st)) = parent st"
    by (simp add: u critical_def)
next
  assume h: "buildCADObject col st = Inr tmp" "params st = Some p" "cad_obj st = Some c"
    "run_steps (update_steps col p) c = (c1, None)" "buildIOs col st c1 = (st1, c2, None)"
    "parent st = Some calls"
    and r: "parent_refresh col c2 = Some e"
  note u = upd_refresh [OF h]
  show "updateModule col st
        = (critical ''Refresh error'' (''Impossible to refresh filter reactor: '' @ str e)
             (st1\<lparr>cad_obj := Some c2, parent := Some (calls @ [Refresh])\<rparr>), Inr False)"
    by (simp add: u r)
  show "cad_obj (fst (updateModule col st)) = Some c2"
    by (simp add: u r critical_def)
qed

theorem update_partial_failure_witness:
  "buildCADObject example_collab
       (readForm (addInput ''clash'' example_input (addInput ''in1'' example_input
          (example_edit\<lparr>spin_vol := 30\<rparr>))))
     = Inr ((example_reactor 30 ''Closed'')\<lparr>r := 5\<rparr>)
   \<and> run_steps (update_steps example_collab (example_params 30 ''Closed''))
        example_live
     = (example_live\<lparr>volume := 30\<rparr>, None)
   \<and> snd (snd (buildIOs example_collab
        (readForm (addInput ''clash'' example_input (addInput ''in1'' example_input
           (example_edit\<lparr>spin_vol := 30\<rparr>))))
        (example_live\<lparr>volume := 30\<rparr>)))
     = Some (ConstraintError ''clash'')
   \<and> cad_obj (fst (updateModule example_collab
        (readForm (addInput ''clash'' example_input (addInput ''in1'' example_input
           (example_edit\<lparr>spin_vol := 30\<rparr>))))))
     = Some (example_live\<lparr>volume := 30, inputs := [example_in1]\<rparr>)
   \<and> messages (fst (updateModule example_collab
        (readForm (addInput ''clash'' example_input (addInput ''in1'' example_input
           (example_edit\<lparr>spin_vol := 30\<rparr>))))))
     = [Critical ''I/Os error'' ''Impossible to create I/Os: clash'']
   \<and> parent (fst (updateModule example_collab
        (readForm (addInput ''clash'' example_input (addInput ''in1'' example_input
           (example_edit\<lparr>spin_vol := 30\<rparr>))))))
     = Some []
   \<and> parent_refresh example_collab
        (example_live\<lparr>volume := 1, inputs := [example_in1]\<rparr>)
     = Some (OtherException ''no display'')
   \<and> cad_obj (fst (updateModule example_collab
        (readForm (addInput ''in1'' example_input (example_edit\<lparr>spin_vol := 1\<rparr>)))))
     = Some (example_live\<lparr>volume := 1, inputs := [example_in1]\<rparr>)
   \<and> messages (fst (updateModule example_collab
        (readForm (addInput ''in1'' example_input (example_edit\<lparr>spin_vol := 1\<rparr>)))))
     = [Critical ''Refresh error'' ''Impossible to refresh filter reactor: no display'']"
proof -
  let ?col = example_collab
  let ?sa = "readForm (addInput ''clash'' example_input (addInput ''in1'' example_input
          (example_edit\<lparr>spin_vol := 30\<rparr>)))"
  let ?sb = "readForm (addInput ''in1'' example_input (example_edit\<lparr>spin_vol := 1\<rparr>))"
  have a: "buildCADObject ?col ?sa = Inr ((example_reactor 30 ''Closed'')\<lparr>r := 5\<rparr>)"
    "params ?sa = Some (example_params 30 ''Closed'')"
    "cad_obj ?sa = Some example_live"
    "run_steps (update_steps ?col (example_params 30 ''Closed'')) example_live
       = (example_live\<lparr>volume := 30\<rparr>, None)"
    "buildIOs ?col ?sa (example_live\<lparr>volume := 30\<rparr>)
       = (?sa, example_live\<lparr>volume := 30, inputs := [example_in1]\<rparr>,
          Some (ConstraintError ''clash''))"
    "parent ?sa = Some []" "messages ?sa = []"
    by (simp_all add: ex_defs buildIOs_def buildInputs_def buildOutputs_def buildTopInlets_def)
  have b: "buildCADObject ?col ?sb = Inr ((example_reactor 1 ''Closed'')\<lparr>r := 5\<rparr>)"
    "params ?sb = Some (example_params 1 ''Closed'')"
    "cad_obj ?sb = Some example_live"
    "run_steps (update_steps ?col (example_params 1 ''Closed'')) example_live
       = (example_live\<lparr>volume := 1\<rparr>, None)"
    "buildIOs ?col ?sb (example_live\<lparr>volume := 1\<rparr>)
       = (?sb, example_live\<lparr>volume := 1, inputs := [example_in1]\<rparr>, None)"
    "parent ?sb = Some []"
    "parent_refresh ?col (example_live\<lparr>volume := 1, inputs := [example_in1]\<rparr>)
       = Some (OtherException ''no display'')"
    "messages ?sb = []"
    by (simp_all add: ex_defs buildIOs_def buildInputs_def buildOutputs_def buildTopInlets_def)
  note ua = update_partial_failure
    [where col = ?col and st = ?sa and tmp = "(example_reactor 30 ''Closed'')\<lparr>r := 5\<rparr>"
       and p = "example_params 30 ''Closed''" and c = example_live
       and ?c1.0 = "example_live\<lparr>volume := 30\<rparr>" and ?st1.0 = ?sa
       and ?c2.0 = "example_live\<lparr>volume := 30, inputs := [example_in1]\<rparr>"
       and e = "ConstraintError ''clash''"]
  note ub = update_partial_failure
    [where col = ?col and st = ?sb and tmp = "(example_reactor 1 ''Closed'')\<lparr>r := 5\<rparr>"
       and p = "example_params 1 ''Closed''" and c = example_live
       and ?c1.0 = "example_live\<lparr>volume := 1\<rparr>" and ?st1.0 = ?sb
       and ?c2.0 = "example_live\<lparr>volume := 1, inputs := [example_in1]\<rparr>"
       and e = "OtherException ''no display''" and calls = "[]"]
  show ?thesis
    using ua ub a b by (simp add: critical_def)
qed

text \<open>
  Claim C9. \<open>buildTopInlets\<close>: an \<open>IncompatibilityError\<close> raised while a top inlet is
  attached ends the step without exception, without message and without a placement; a
  \<open>ConstraintError\<close> raised by \<open>autoPlaceTopInlets\<close> ends the step without exception,
  after the message "Auto-placement error". In both cases the I/O pass returns the
  object that carries the inputs and outputs attached before (\<open>c\<close>) as the top-inlet calls
  left it, and the update goes on: the live object is that object and the parent window
  is refreshed.
\<close>

theorem top_inlet_step:
  "(run_steps (top_inlet_calls col st) c = (c1, Some e) \<and> isIncompatibilityError e \<longrightarrow>
      buildTopInlets col st c = (st, c1, None))
   \<and> (run_steps (top_inlet_calls col st) c = (c1, None)
        \<and> autoPlaceTopInlets col c1 = (c2, Some e) \<and> isConstraintError e \<longrightarrow>
      buildTopInlets col st c
        = (critical ''Auto-placement error''
             ''Impossible to auto-place the top inlets. Collision ?'' st, c2, None))
   \<and> (run_steps (input_calls col st @ output_calls col st) c0 = (c, None) \<longrightarrow>
      buildIOs col st c0 = buildTopInlets col st c)
   \<and> (buildCADObject col st = Inr tmp \<and> params st = Some p \<and> cad_obj st = Some live
        \<and> run_steps (update_steps col p) live = (c0, None)
        \<and> run_steps (input_calls col st @ output_calls col st) c0 = (c, None)
        \<and> run_steps (top_inlet_calls col st) c = (c1, Some e) \<and> isIncompatibilityError e
        \<and> parent st = Some calls \<and> parent_refresh col c1 = None \<longrightarrow>
      updateModule col st
        = (st\<lparr>cad_obj := Some c1, parent := Some (calls @ [Refresh])\<rparr>, Inr True))
   \<and> (buildCADObject col st = Inr tmp \<and> params st = Some p \<and> cad_obj st = Some live
        \<and> run_steps (update_steps col p) live = (c0, None)
        \<and> run_steps (input_calls col st @ output_calls col st) c0 = (c, None)
        \<and> run_steps (top_inlet_calls col st) c = (c1, None)
        \<and> autoPlaceTopInlets col c1 = (c2, Some e) \<and> isConstraintError e
        \<and> parent st = Some calls \<and> parent_refresh col c2 = None \<longrightarrow>
      updateModule col st
        = ((critical ''Auto-placement error''
              ''Impossible to auto-place the top inlets. Collision ?'' st)
             \<lparr>cad_obj := Some c2, parent := Some (calls @ [Refresh])\<rparr>, Inr True))"
proof (intro conjI impI; (elim conjE)?)
  assume "run_steps (top_inlet_calls col st) c = (c1, Some e)" "isIncompatibilityError e"
  then show "buildTopInlets col st c = (st, c1, None)"
    by (simp add: buildTopInlets_cases(1))
next
  assume "run_steps (top_inlet_calls col st) c = (c1, None)"
    "autoPlaceTopInlets col c1 = (c2, Some e)" "isConstraintError e"
  then show "buildTopInlets col st c
        = (critical ''Auto-placement error''
             ''Impossible to auto-place the top inlets. Collision ?'' st, c2, None)"
    by (simp add: buildTopInlets_cases(2) [where ?c2.0 = c2])
next
  assume "run_steps (input_calls col st @ output_calls col st) c0 = (c, None)"
  then show "buildIOs col st c0 = buildTopInlets col st c"
    by (rule buildIOs_attached)
next
  assume h: "buildCADObject col st = Inr tmp" "params st = Some p" "cad_obj st = Some live"
    "run_steps (update_steps col p) live = (c0, None)"
    and a: "run_steps (input_calls col st @ output_calls col st) c0 = (c, None)"
    and t: "run_steps (top_inlet_calls col st) c = (c1, Some e)" "isIncompatibilityError e"
    and q: "parent st = Some calls" "parent_refresh col c1 = None"
  have "buildIOs col st c0 = (st, c1, None)"
    using a t by (simp add: buildIOs_attached buildTopInlets_cases(1))
  from upd_refresh [OF h this q(1)] q(2)
  show "updateModule col st
        = (st\<lparr>cad_obj := Some c1, parent := Some (calls @ [Refresh])\<rparr>, Inr True)"
    by simp
next
  assume h: "buildCADObject col st = Inr tmp" "params st = Some p" "cad_obj st = Some live"
    "run_steps (update_steps col p) live = (c0, None)"
    and a: "run_steps (input_calls col st @ output_calls col st) c0 = (c, None)"
    and t: "run_steps (top_inlet_calls col st) c = (c1, None)"
      "autoPlaceTopInlets col c1 = (c2, Some e)" "isConstraintError e"
    and q: "parent st = Some calls" "parent_refresh col c2 = None"
  have "buildIOs col st c0
        = (critical ''Auto-placement error''
             ''Impossible to auto-place the top inlets. Collision ?'' st, c2, None)"
    using a t by (simp add: buildIOs_attached buildTopInlets_cases(2) [where ?c2.0 = c2])
  from upd_refresh [OF h this q(1)] q(2)
  show "updateModule col st
        = ((critical ''Auto-placement error''
              ''Impossible to auto-place the top inlets. Collision ?'' st)
             \<lparr>cad_obj := Some c2, parent := Some (calls @ [Refresh])\<rparr>, Inr True)"
    by simp
qed

theorem top_inlet_step_witness:
  "run_steps (top_inlet_calls example_collab
                (readForm (addTopInlet ''t1'' example_inlet (example_new\<lparr>combo_top := ''Open''\<rparr>))))
       ((example_reactor 20 ''Open'')\<lparr>inputs := [example_in1]\<rparr>)
     = ((example_reactor 20 ''Open'')\<lparr>inputs := [example_in1]\<rparr>,
        Some (IncompatibilityError ''no custom top''))
   \<and> buildIOs example_collab
        (readForm (addTopInlet ''t1'' example_inlet (example_new\<lparr>combo_top := ''Open''\<rparr>)))
        (example_reactor 20 ''Open'')
     = (readForm (addTopInlet ''t1'' example_inlet (example_new\<lparr>combo_top := ''Open''\<rparr>)),
        (example_reactor 20 ''Open'')\<lparr>inputs := [example_in1]\<rparr>, None)
   \<and> autoPlaceTopInlets example_collab
        ((example_reactor 20 ''Closed'')
           \<lparr>inputs := [example_in1],
            top_inlets := [example_top ''t1'', example_top ''t2'', example_top ''t3'']\<rparr>)
     = ((example_reactor 20 ''Closed'')
           \<lparr>inputs := [example_in1],
            top_inlets := [example_top ''t1'', example_top ''t2'', example_top ''t3'']\<rparr>,
        Some (ConstraintError ''collision''))
   \<and> buildTopInlets example_collab
        (readForm (addTopInlet ''t3'' example_inlet (addTopInlet ''t2'' example_inlet
           (addTopInlet ''t1'' example_inlet example_new))))
        ((example_reactor 20 ''Closed'')\<lparr>inputs := [example_in1]\<rparr>)
     = (critical ''Auto-placement error'' ''Impossible to auto-place the top inlets. Collision ?''
          (readForm (addTopInlet ''t3'' example_inlet (addTopInlet ''t2'' example_inlet
             (addTopInlet ''t1'' example_inlet example_new)))),
        (example_reactor 20 ''Closed'')
           \<lparr>inputs := [example_in1],
            top_inlets := [example_top ''t1'', example_top ''t2'', example_top ''t3'']\<rparr>,
        None)
   \<and> updateModule example_collab
        (readForm (addTopInlet ''t1'' example_inlet (addInput ''in1'' example_input
           (example_edit\<lparr>combo_top := ''Open''\<rparr>))))
     = ((readForm (addTopInlet ''t1'' example_inlet (addInput ''in1'' example_input
           (example_edit\<lparr>combo_top := ''Open''\<rparr>))))
          \<lparr>cad_obj := Some (example_live\<lparr>type_top := ''Open'', inputs := [example_in1]\<rparr>),
           parent := Some [Refresh]\<rparr>, Inr True)
   \<and> updateModule example_collab
        (readForm (addTopInlet ''t3'' example_inlet (addTopInlet ''t2'' example_inlet
           (addTopInlet ''t1'' example_inlet (addInput ''in1'' example_input example_edit)))))
     = ((critical ''Auto-placement error'' ''Impossible to auto-place the top inlets. Collision ?''
          (readForm (addTopInlet ''t3'' example_inlet (addTopInlet ''t2'' example_inlet
             (addTopInlet ''t1'' example_inlet (addInput ''in1'' example_input example_edit))))))
          \<lparr>cad_obj := Some (example_live
             \<lparr>inputs := [example_in1],
              top_inlets := [example_top ''t1'', example_top ''t2'', example_top ''t3'']\<rparr>),
           parent := Some [Refresh]\<rparr>, Inr True)"
proof -
  let ?col = example_collab
  let ?s5 = "readForm (addTopInlet ''t1'' example_inlet (example_new\<lparr>combo_top := ''Open''\<rparr>))"
  let ?s6 = "readForm (addTopInlet ''t3'' example_inlet (addTopInlet ''t2'' example_inlet
           (addTopInlet ''t1'' example_inlet example_new)))"
  let ?su = "readForm (addTopInlet ''t1'' example_inlet (addInput ''in1'' example_input
           (example_edit\<lparr>combo_top := ''Open''\<rparr>)))"
  let ?sv = "readForm (addTopInlet ''t3'' example_inlet (addTopInlet ''t2'' example_inlet
           (addTopInlet ''t1'' example_inlet (addInput ''in1'' example_input example_edit))))"
  let ?o = "example_reactor 20 ''Open''"
  let ?oi = "(example_reactor 20 ''Open'')\<lparr>inputs := [example_in1]\<rparr>"
  let ?ri = "(example_reactor 20 ''Closed'')\<lparr>inputs := [example_in1]\<rparr>"
  let ?r6 = "(example_reactor 20 ''Closed'')
           \<lparr>inputs := [example_in1],
            top_inlets := [example_top ''t1'', example_top ''t2'', example_top ''t3'']\<rparr>"
  let ?lo = "example_live\<lparr>type_top := ''Open''\<rparr>"
  let ?loi = "example_live\<lparr>type_top := ''Open'', inputs := [example_in1]\<rparr>"
  let ?li = "example_live\<lparr>inputs := [example_in1]\<rparr>"
  let ?l6 = "example_live
             \<lparr>inputs := [example_in1],
              top_inlets := [example_top ''t1'', example_top ''t2'', example_top ''t3'']\<rparr>"
  have h5: "run_steps (top_inlet_calls ?col ?s5) ?oi
              = (?oi, Some (IncompatibilityError ''no custom top''))"
    "isIncompatibilityError (IncompatibilityError ''no custom top'')"
    "run_steps (input_calls ?col ?s5 @ output_calls ?col ?s5) ?o = (?oi, None)"
    by (simp_all add: ex_defs)
  have h6: "run_steps (top_inlet_calls ?col ?s6) ?ri = (?r6, None)"
    "autoPlaceTopInlets ?col ?r6 = (?r6, Some (ConstraintError ''collision''))"
    "isConstraintError (ConstraintError ''collision'')"
    by (simp_all add: ex_defs)
  have hu: "buildCADObject ?col ?su = Inr ((example_reactor 20 ''Open'')\<lparr>r := 5\<rparr>)"
    "params ?su = Some (example_params 20 ''Open'')"
    "cad_obj ?su = Some example_live"
    "run_steps (update_steps ?col (example_params 20 ''Open'')) example_live = (?lo, None)"
    "run_steps (input_calls ?col ?su @ output_calls ?col ?su) ?lo = (?loi, None)"
    "run_steps (top_inlet_calls ?col ?su) ?loi
       = (?loi, Some (IncompatibilityError ''no custom top''))"
    "parent ?su = Some []" "parent_refresh ?col ?loi = None"
    by (simp_all add: ex_defs)
  have hv: "buildCADObject ?col ?sv = Inr ((example_reactor 20 ''Closed'')\<lparr>r := 5\<rparr>)"
    "params ?sv = Some (example_params 20 ''Closed'')"
    "cad_obj ?sv = Some example_live"
    "run_steps (update_steps ?col (example_params 20 ''Closed'')) example_live
       = (example_live, None)"
    "run_steps (input_calls ?col ?sv @ output_calls ?col ?sv) example_live = (?li, None)"
    "run_steps (top_inlet_calls ?col ?sv) ?li = (?l6, None)"
    "autoPlaceTopInlets ?col ?l6 = (?l6, Some (ConstraintError ''collision''))"
    "parent ?sv = Some []" "parent_refresh ?col ?l6 = None"
    by (simp_all add: ex_defs)
  note t5 = top_inlet_step
    [where col = ?col and st = ?s5 and c = ?oi and ?c1.0 = ?oi
       and e = "IncompatibilityError ''no custom top''" and ?c0.0 = ?o]
  note t6 = top_inlet_step
    [where col = ?col and st = ?s6 and c = ?ri and ?c1.0 = ?r6 and ?c2.0 = ?r6
       and e = "ConstraintError ''collision''"]
  note tu = top_inlet_step
    [where col = ?col and st = ?su and c = ?loi and ?c1.0 = ?loi
       and e = "IncompatibilityError ''no custom top''" and ?c0.0 = ?lo
       and tmp = "(example_reactor 20 ''Open'')\<lparr>r := 5\<rparr>"
       and p = "example_params 20 ''Open''" and live = example_live and calls = "[]"]
  note tv = top_inlet_step
    [where col = ?col and st = ?sv and c = ?li and ?c1.0 = ?l6 and ?c2.0 = ?l6
       and e = "ConstraintError ''collision''" and ?c0.0 = example_live
       and tmp = "(example_reactor 20 ''Closed'')\<lparr>r := 5\<rparr>"
       and p = "example_params 20 ''Closed''" and live = example_live and calls = "[]"]
  show ?thesis
    using t5 h5 t6 h6 tu hu tv hv by simp
qed

subsection \<open>The update with a threaded top\<close>

text \<open>
  The CAD class of the specification: its assignments write a field and restore the
  invariant of a threaded top; its I/O calls leave the top and the radius alone.
\<close>

lemma spec_collab_simps:
  "THREADED_TOPS (spec_collab g) = threaded g"
  "construct (spec_collab g) = spec_construct g"
  "set_r (spec_collab g) = (\<lambda>v. spec_set g (\<lambda>c. c\<lparr>r := v\<rparr>))"
  "set_r_constrained (spec_collab g) = (\<lambda>v. spec_set g (\<lambda>c. c\<lparr>r_constrained := v\<rparr>))"
  "set_volume (spec_collab g) = (\<lambda>v. spec_set g (\<lambda>c. c\<lparr>volume := v\<rparr>))"
  "set_type_top (spec_collab g) = (\<lambda>v. spec_set g (\<lambda>c. c\<lparr>type_top := v\<rparr>))"
  "set_type_bottom (spec_collab g) = (\<lambda>v. spec_set g (\<lambda>c. c\<lparr>type_bottom := v\<rparr>))"
  "set_d_can (spec_collab g) = (\<lambda>v. spec_set g (\<lambda>c. c\<lparr>d_can := v\<rparr>))"
  "set_h_filter (spec_collab g) = (\<lambda>v. spec_set g (\<lambda>c. c\<lparr>h_filter := v\<rparr>))"
  "set_d_filter (spec_collab g) = (\<lambda>v. spec_set g (\<lambda>c. c\<lparr>d_filter := v\<rparr>))"
  "set_align_top_strategy (spec_collab g)
     = (\<lambda>v. spec_set g (\<lambda>c. c\<lparr>align_top_strategy := v\<rparr>))"
  "set_align_filter_strategy (spec_collab g)
     = (\<lambda>v. spec_set g (\<lambda>c. c\<lparr>align_filter_strategy := v\<rparr>))"
  "addInputPercentage (spec_collab g) = spec_addInput g"
  "addOutputPercentage (spec_collab g) = spec_addOutput g"
  "addCustomTopInlet (spec_collab g) = spec_addTopInlet g"
  "autoPlaceTopInlets (spec_collab g) = (\<lambda>c. (c, placement_error g c))"
  by (simp_all add: spec_collab_def)

lemma enforce_fields:
  "type_top (enforce g c) = type_top c"
  "r (enforce g c)
     = (if type_top c \<in> set (threaded g) then thread_radius g (type_top c) else r c)"
  "r_constrained (enforce g c)
     = (if type_top c \<in> set (threaded g) then True else r_constrained c)"
  by (simp_all add: enforce_def)

lemma keeps_radius_spec:
  "keeps_radius (spec_addInput g name h a d e)"
  "keeps_radius (spec_addOutput g name h a d e)"
  "keeps_radius (spec_addTopInlet g name d l w t)"
  "keeps_radius (\<lambda>c. (c, placement_error g c))"
  by (simp_all add: keeps_radius_def spec_addInput_def spec_addOutput_def spec_addTopInlet_def
      split: option.splits)

lemma spec_calls_keep_radius:
  "list_all keeps_radius (input_calls (spec_collab g) st)"
  "list_all keeps_radius (output_calls (spec_collab g) st)"
  "list_all keeps_radius (top_inlet_calls (spec_collab g) st)"
  "keeps_radius (autoPlaceTopInlets (spec_collab g))"
  by (simp_all add: list_all_iff input_calls_def output_calls_def top_inlet_calls_def
      spec_collab_simps keeps_radius_spec case_prod_beta)

lemma spec_update_steps_threaded:
  assumes "p_type_top p \<in> set (threaded g)"
  shows "snd (run_steps (update_steps (spec_collab g) p) c) = None"
    and "type_top (fst (run_steps (update_steps (spec_collab g) p) c)) = p_type_top p"
    and "r (fst (run_steps (update_steps (spec_collab g) p) c)) = thread_radius g (p_type_top p)"
    and "r_constrained (fst (run_steps (update_steps (spec_collab g) p) c))"
  using assms
  by (simp_all add: update_steps_def spec_collab_simps spec_set_def enforce_fields)


lemma keeps_radiusD:
  "keeps_radius m \<Longrightarrow> m c = (c1, x) \<Longrightarrow>
     type_top c1 = type_top c \<and> r c1 = r c \<and> r_constrained c1 = r_constrained c"
  unfolding keeps_radius_def by (drule spec [where x = c]) simp

lemma keeps_radius_run_steps:
  "list_all keeps_radius ms \<Longrightarrow> keeps_radius (run_steps ms)"
proof (induction ms)
  case Nil
  show ?case by (simp add: keeps_radius_def)
next
  case (Cons m ms)
  then have m: "keeps_radius m" and ms: "keeps_radius (run_steps ms)" by simp_all
  show ?case
    unfolding keeps_radius_def
  proof
    fix c
    obtain c1 x where mc: "m c = (c1, x)" by (cases "m c")
    note k = keeps_radiusD [OF m mc]
    show "type_top (fst (run_steps (m # ms) c)) = type_top c
        \<and> r (fst (run_steps (m # ms) c)) = r c
        \<and> r_constrained (fst (run_steps (m # ms) c)) = r_constrained c"
    proof (cases x)
      case None
      obtain c2 y where r2: "run_steps ms c1 = (c2, y)" by (cases "run_steps ms c1")
      from keeps_radiusD [OF ms r2] k mc None r2 show ?thesis by simp
    next
      case (Some e)
      with mc k show ?thesis by simp
    qed
  qed
qed

lemma spec_buildTopInlets_keeps_radius:
  "type_top (fst (snd (buildTopInlets (spec_collab g) st c))) = type_top c
   \<and> r (fst (snd (buildTopInlets (spec_collab g) st c))) = r c
   \<and> r_constrained (fst (snd (buildTopInlets (spec_collab g) st c))) = r_constrained c"
proof -
  let ?col = "spec_collab g"
  have t: "keeps_radius (run_steps (top_inlet_calls ?col st))"
    and a: "keeps_radius (autoPlaceTopInlets ?col)"
    by (simp_all add: keeps_radius_run_steps spec_calls_keep_radius)
  obtain c3 x3 where 3: "run_steps (top_inlet_calls ?col st) c = (c3, x3)"
    by (cases "run_steps (top_inlet_calls ?col st) c")
  obtain c4 x4 where 4: "autoPlaceTopInlets ?col c3 = (c4, x4)"
    by (cases "autoPlaceTopInlets ?col c3")
  note k3 = keeps_radiusD [OF t 3]
  note k4 = keeps_radiusD [OF a 4]
  show ?thesis
  proof (cases x3)
    case (Some e)
    with 3 k3 show ?thesis by (simp add: buildTopInlets_def)
  next
    case None
    with 3 4 k3 k4 show ?thesis
      by (cases x4) (simp_all add: buildTopInlets_def)
  qed
qed

lemma spec_buildIOs_keeps_radius:
  "type_top (fst (snd (buildIOs (spec_collab g) st c))) = type_top c
   \<and> r (fst (snd (buildIOs (spec_collab g) st c))) = r c
   \<and> r_constrained (fst (snd (buildIOs (spec_collab g) st c))) = r_constrained c"
proof -
  let ?col = "spec_collab g"
  have i: "keeps_radius (run_steps (input_calls ?col st))"
    and out: "keeps_radius (run_steps (output_calls ?col st))"
    by (simp_all add: keeps_radius_run_steps spec_calls_keep_radius)
  obtain c1 x1 where 1: "run_steps (input_calls ?col st) c = (c1, x1)"
    by (cases "run_steps (input_calls ?col st) c")
  obtain c2 x2 where 2: "run_steps (output_calls ?col st) c1 = (c2, x2)"
    by (cases "run_steps (output_calls ?col st) c1")
  note k1 = keeps_radiusD [OF i 1]
  note k2 = keeps_radiusD [OF out 2]
  note k3 = spec_buildTopInlets_keeps_radius [of g st c2]
  show ?thesis
  proof (cases x1)
    case (Some e)
    with 1 k1 show ?thesis by (simp add: buildIOs_def buildInputs_def)
  next
    case None
    note n1 = this
    show ?thesis
    proof (cases x2)
      case (Some e)
      with 1 2 n1 k1 k2 show ?thesis by (simp add: buildIOs_def buildInputs_def buildOutputs_def)
    next
      case None
      with 1 2 n1 k1 k2 k3 show ?thesis
        by (simp add: buildIOs_def buildInputs_def buildOutputs_def)
    qed
  qed
qed

text \<open>
  The live object after \<open>_updateModule\<close>, for any collaborators; with a threaded top in
  the form the radius of the form is read by \<open>readForm\<close> and used by no call.
\<close>

lemma upd_live_object:
  "cad_obj (fst (updateModule col st))
     = (case buildCADObject col st of
          Inl e \<Rightarrow> cad_obj st
        | Inr tmp \<Rightarrow>
            (case params st of
               None \<Rightarrow> cad_obj st
             | Some p \<Rightarrow>
                 (case cad_obj st of
                    None \<Rightarrow> None
                  | Some c \<Rightarrow>
                      (case run_steps (update_steps col p) c of
                         (c1, Some e) \<Rightarrow> Some c1
                       | (c1, None) \<Rightarrow> Some (fst (snd (buildIOs col st c1)))))))"
proof (cases "buildCADObject col st")
  case (Inl e)
  then show ?thesis by (simp add: updateModule_def critical_def)
next
  case (Inr tmp)
  note b = this
  show ?thesis
  proof (cases "params st")
    case None
    with b show ?thesis by (simp add: updateModule_def)
  next
    case (Some p)
    note p = this
    show ?thesis
    proof (cases "cad_obj st")
      case None
      with b p show ?thesis by (simp add: updateModule_def)
    next
      case (Some c)
      note c = this
      obtain c1 x where u: "run_steps (update_steps col p) c = (c1, x)"
        by (cases "run_steps (update_steps col p) c")
      show ?thesis
      proof (cases x)
        case (Some e)
        with b p c u show ?thesis by (simp add: updateModule_def)
      next
        case None
        note x = this
        obtain st1 c2 y where io: "buildIOs col st c1 = (st1, c2, y)"
          by (cases "buildIOs col st c1")
        show ?thesis
        proof (cases y)
          case (Some e)
          with b p c u x io show ?thesis by (simp add: updateModule_def critical_def)
        next
          case None
          with b p c u x io show ?thesis
            by (simp add: updateModule_def critical_def split: option.splits)
        qed
      qed
    qed
  qed
qed

lemma buildModule_live_object:
  "\<not> test st \<Longrightarrow> cad_obj st = Some c \<Longrightarrow>
     cad_obj (fst (buildModule col st)) = cad_obj (fst (updateModule col (readForm st)))"
proof -
  assume t: "\<not> test st" and c: "cad_obj st = Some c"
  obtain st2 res where u: "updateModule col (readForm st) = (st2, res)"
    by (cases "updateModule col (readForm st)")
  have "test (readForm st) = test st" "cad_obj (readForm st) = cad_obj st"
    by (simp_all add: readForm_def)
  with t c u show ?thesis
    by (cases res) (simp_all add: buildModule_def Let_def close_def)
qed

lemma buildTopInlets_dicts:
  "dict_top_inlets st' = dict_top_inlets st \<Longrightarrow>
     snd (buildTopInlets col st' c) = snd (buildTopInlets col st c)"
proof -
  assume d: "dict_top_inlets st' = dict_top_inlets st"
  then have t: "top_inlet_calls col st' = top_inlet_calls col st"
    by (simp add: top_inlet_calls_def)
  obtain c3 x3 where 3: "run_steps (top_inlet_calls col st) c = (c3, x3)"
    by (cases "run_steps (top_inlet_calls col st) c")
  obtain c4 x4 where 4: "autoPlaceTopInlets col c3 = (c4, x4)"
    by (cases "autoPlaceTopInlets col c3")
  show ?thesis
  proof (cases x3)
    case (Some e)
    with 3 t show ?thesis by (simp add: buildTopInlets_def)
  next
    case None
    with 3 4 t show ?thesis by (cases x4) (simp_all add: buildTopInlets_def)
  qed
qed

lemma buildIOs_dicts:
  "dict_inputs st' = dict_inputs st \<Longrightarrow> dict_outputs st' = dict_outputs st \<Longrightarrow>
   dict_top_inlets st' = dict_top_inlets st \<Longrightarrow>
     fst (snd (buildIOs col st' c)) = fst (snd (buildIOs col st c))"
proof -
  assume d: "dict_inputs st' = dict_inputs st" "dict_outputs st' = dict_outputs st"
    "dict_top_inlets st' = dict_top_inlets st"
  then have i: "input_calls col st' = input_calls col st"
    and out: "output_calls col st' = output_calls col st"
    by (simp_all add: input_calls_def output_calls_def)
  obtain c1 x1 where 1: "run_steps (input_calls col st) c = (c1, x1)"
    by (cases "run_steps (input_calls col st) c")
  obtain c2 x2 where 2: "run_steps (output_calls col st) c1 = (c2, x2)"
    by (cases "run_steps (output_calls col st) c1")
  note t = buildTopInlets_dicts [OF d(3), of col c2]
  show ?thesis
  proof (cases x1)
    case (Some e)
    with 1 i show ?thesis by (simp add: buildIOs_def buildInputs_def)
  next
    case None
    note n1 = this
    show ?thesis
    proof (cases x2)
      case (Some e)
      with 1 2 n1 i out show ?thesis by (simp add: buildIOs_def buildInputs_def buildOutputs_def)
    next
      case None
      with 1 2 n1 i out t show ?thesis
        by (simp add: buildIOs_def buildInputs_def buildOutputs_def)
    qed
  qed
qed

lemma threaded_ignores_radius:
  assumes t: "combo_top st \<in> set (THREADED_TOPS col)"
  shows "cad_obj (fst (updateModule col (readForm (st\<lparr>spin_r := x\<rparr>))))
           = cad_obj (fst (updateModule col (readForm st)))"
proof -
  obtain p where p: "params (readForm st) = Some p" and pt: "p_type_top p = combo_top st"
    and px: "params (readForm (st\<lparr>spin_r := x\<rparr>)) = Some (p\<lparr>p_r := x\<rparr>)"
    by (simp add: readForm_def)
  have b: "buildCADObject col (readForm (st\<lparr>spin_r := x\<rparr>)) = buildCADObject col (readForm st)"
    using t p px pt by (simp add: buildCADObject_def split: sum.splits)
  have u: "update_steps col (p\<lparr>p_r := x\<rparr>) = update_steps col p"
    using t pt by (simp add: update_steps_def)
  have c: "cad_obj (readForm (st\<lparr>spin_r := x\<rparr>)) = cad_obj (readForm st)"
    by (simp add: readForm_def)
  have io: "fst (snd (buildIOs col (readForm (st\<lparr>spin_r := x\<rparr>)) c1))
              = fst (snd (buildIOs col (readForm st) c1))" for c1
    by (rule buildIOs_dicts) (simp_all add: readForm_def)
  show ?thesis
    by (simp add: upd_live_object b p px u c io cong: sum.case_cong option.case_cong prod.case_cong)
qed

text \<open>
  Claim C2. With the CAD class as the specification describes it (a threaded top forces
  the constraint and fixes the radius): when the form shows a threaded top and the
  validation build succeeds, the commit on an existing module, whatever its radius,
  constraint and top were, leaves the live object with that top, with
  \<open>r_constrained\<close> true and with the radius of the thread; the radius entered in the
  form has no effect on the live object. For any collaborators, \<open>_updateModule\<close> makes
  the assignment of the radius (or of its constraint) first, and the eight other
  assignments on the object that assignment left.
\<close>

theorem threaded_top_update:
  "(\<not> test st \<and> cad_obj st = Some c \<and> combo_top st \<in> set (threaded g)
      \<and> buildCADObject (spec_collab g) (readForm st) = Inr tmp \<longrightarrow>
      map_option type_top (cad_obj (fst (buildModule (spec_collab g) st))) = Some (combo_top st)
      \<and> map_option r_constrained (cad_obj (fst (buildModule (spec_collab g) st))) = Some True
      \<and> map_option r (cad_obj (fst (buildModule (spec_collab g) st)))
          = Some (thread_radius g (combo_top st))
      \<and> cad_obj (fst (buildModule (spec_collab g) (st\<lparr>spin_r := x\<rparr>)))
          = cad_obj (fst (buildModule (spec_collab g) st)))
   \<and> run_steps (update_steps col p) c0
       = (case (if p_r_constrained p \<and> p_type_top p \<notin> set (THREADED_TOPS col)
                then set_r col (p_r p) else set_r_constrained col False) c0 of
            (c1, None) \<Rightarrow>
              run_steps
                [set_volume col (p_volume p), set_type_top col (p_type_top p),
                 set_type_bottom col (p_type_bottom p), set_d_can col (p_d_can p),
                 set_h_filter col (p_h_filter p), set_d_filter col (p_d_filter p),
                 set_align_top_strategy col (p_align_top_strategy p),
                 set_align_filter_strategy col (p_align_filter_strategy p)] c1
          | (c1, Some e) \<Rightarrow> (c1, Some e))"
proof (intro conjI impI; (elim conjE)?)
  show "run_steps (update_steps col p) c0
       = (case (if p_r_constrained p \<and> p_type_top p \<notin> set (THREADED_TOPS col)
                then set_r col (p_r p) else set_r_constrained col False) c0 of
            (c1, None) \<Rightarrow>
              run_steps
                [set_volume col (p_volume p), set_type_top col (p_type_top p),
                 set_type_bottom col (p_type_bottom p), set_d_can col (p_d_can p),
                 set_h_filter col (p_h_filter p), set_d_filter col (p_d_filter p),
                 set_align_top_strategy col (p_align_top_strategy p),
                 set_align_filter_strategy col (p_align_filter_strategy p)] c1
          | (c1, Some e) \<Rightarrow> (c1, Some e))"
    unfolding update_steps_def by (simp only: run_steps.simps)
next
  assume h: "\<not> test st" "cad_obj st = Some c" "combo_top st \<in> set (threaded g)"
    "buildCADObject (spec_collab g) (readForm st) = Inr tmp"
  let ?col = "spec_collab g"
  obtain q where q: "params (readForm st) = Some q" and qt: "p_type_top q = combo_top st"
    by (simp add: readForm_def)
  have cr: "cad_obj (readForm st) = Some c"
    using h(2) by (simp add: readForm_def)
  from h(3) qt have th: "p_type_top q \<in> set (threaded g)" by simp
  note s = spec_update_steps_threaded [OF th, of c]
  obtain c1 where c1: "run_steps (update_steps ?col q) c = (c1, None)"
    using s(1) by (cases "run_steps (update_steps ?col q) c") simp
  with s qt have k1: "type_top c1 = combo_top st" "r c1 = thread_radius g (combo_top st)"
      "r_constrained c1"
    by simp_all
  have live: "cad_obj (fst (buildModule ?col st))
                = Some (fst (snd (buildIOs ?col (readForm st) c1)))"
    using h(1,2,4) q cr c1 by (simp add: buildModule_live_object upd_live_object)
  note k2 = spec_buildIOs_keeps_radius [of g "readForm st" c1]
  show "map_option type_top (cad_obj (fst (buildModule ?col st))) = Some (combo_top st)"
    using live k1 k2 by simp
  show "map_option r_constrained (cad_obj (fst (buildModule ?col st))) = Some True"
    using live k1 k2 by simp
  show "map_option r (cad_obj (fst (buildModule ?col st)))
          = Some (thread_radius g (combo_top st))"
    using live k1 k2 by simp
  have "cad_obj (fst (buildModule ?col (st\<lparr>spin_r := x\<rparr>)))
          = cad_obj (fst (updateModule ?col (readForm (st\<lparr>spin_r := x\<rparr>))))"
    using h(1,2) by (simp add: buildModule_live_object)
  also have "\<dots> = cad_obj (fst (updateModule ?col (readForm st)))"
    using h(3) by (simp add: threaded_ignores_radius spec_collab_simps)
  also have "\<dots> = cad_obj (fst (buildModule ?col st))"
    using h(1,2) by (simp add: buildModule_live_object)
  finally show "cad_obj (fst (buildModule ?col (st\<lparr>spin_r := x\<rparr>)))
          = cad_obj (fst (buildModule ?col st))" .
qed


theorem threaded_top_update_witness:
  "\<not> test (choose_top (spec_collab example_geometry) ''Threaded'' (example_edit\<lparr>spin_r := 7\<rparr>))
   \<and> cad_obj (choose_top (spec_collab example_geometry) ''Threaded'' (example_edit\<lparr>spin_r := 7\<rparr>))
       = Some example_live
   \<and> r_constrained example_live \<and> r example_live = 5
   \<and> type_top example_live \<notin> set (threaded example_geometry)
   \<and> combo_top (choose_top (spec_collab example_geometry) ''Threaded''
         (example_edit\<lparr>spin_r := 7\<rparr>)) = ''Threaded''
   \<and> ''Threaded'' \<in> set (threaded example_geometry)
   \<and> spin_r (choose_top (spec_collab example_geometry) ''Threaded''
         (example_edit\<lparr>spin_r := 7\<rparr>)) = 7
   \<and> buildCADObject (spec_collab example_geometry)
        (readForm (choose_top (spec_collab example_geometry) ''Threaded''
           (example_edit\<lparr>spin_r := 7\<rparr>)))
       = Inr ((example_reactor 20 ''Threaded'')\<lparr>r := 9, r_constrained := True\<rparr>)
   \<and> cad_obj (fst (buildModule (spec_collab example_geometry)
        (choose_top (spec_collab example_geometry) ''Threaded'' (example_edit\<lparr>spin_r := 7\<rparr>))))
       = Some (example_live\<lparr>type_top := ''Threaded'', r := 9\<rparr>)
   \<and> cad_obj (fst (buildModule (spec_collab example_geometry)
        ((choose_top (spec_collab example_geometry) ''Threaded'' (example_edit\<lparr>spin_r := 7\<rparr>))
           \<lparr>spin_r := 5\<rparr>)))
       = Some (example_live\<lparr>type_top := ''Threaded'', r := 9\<rparr>)"
proof -
  let ?col = "spec_collab example_geometry"
  let ?S = "choose_top (spec_collab example_geometry) ''Threaded'' (example_edit\<lparr>spin_r := 7\<rparr>)"
  have S: "?S = example_edit\<lparr>spin_r := 7, combo_top := ''Threaded'', spin_r_enabled := False,
                   check_r_constrained_enabled := False\<rparr>"
    by (simp add: ex_defs choose_top_def topTypeChanged_def setCheckState_def)
  have h: "\<not> test ?S" "cad_obj ?S = Some example_live" "combo_top ?S = ''Threaded''"
    "''Threaded'' \<in> set (threaded example_geometry)" "spin_r ?S = 7"
    "r_constrained example_live" "r example_live = 5"
    "type_top example_live \<notin> set (threaded example_geometry)"
    by (simp_all add: S) (simp_all add: ex_defs)
  have b: "buildCADObject ?col (readForm ?S)
             = Inr ((example_reactor 20 ''Threaded'')\<lparr>r := 9, r_constrained := True\<rparr>)"
    by (simp add: S) (simp add: ex_defs)
  have e: "cad_obj (fst (buildModule ?col ?S))
             = Some (example_live\<lparr>type_top := ''Threaded'', r := 9\<rparr>)"
    by (simp add: S)
      (simp add: ex_defs buildModule_def updateModule_def buildIOs_def buildInputs_def
        buildOutputs_def buildTopInlets_def close_def)
  note t = threaded_top_update
    [where st = ?S and c = example_live and g = example_geometry and x = 5
       and tmp = "(example_reactor 20 ''Threaded'')\<lparr>r := 9, r_constrained := True\<rparr>"]
  show ?thesis
    using t h b e by simp
qed

end
